theory Spec2Isabelle
  imports Complex_Main "HOL-Library.Sublist" "HOL-Library.Log_Nat"
begin

section \<open>Values, exceptions and the Python operations the bot relies on\<close>

text \<open>
  The bot (\<^verbatim>\<open>weather.py\<close>) handles decoded JSON throughout: the update of the messaging
  platform and the answers of the three providers. A decoded value is what
  \<^verbatim>\<open>json.loads\<close> builds: \<^verbatim>\<open>None\<close>, a bool, an int, a float, a str, a list or a dict with
  string keys. A dict is an association list read with \<open>map_of\<close>. A float is an IEEE
  double: a finite one is kept as the rational number it is (\<open>JFloat\<close>), and the three
  others, which \<^verbatim>\<open>json.loads\<close> also accepts, are \<open>JNonFinite\<close>. A \<^verbatim>\<open>str\<close> is kept as its
  UTF-8 bytes (equality, concatenation and substring search agree on both); a lone
  surrogate, which a \<^verbatim>\<open>str\<close> holds after a JSON escape of one, is kept as the three
  bytes that scheme gives it, \<open>ED\<close> followed by a byte from \<open>A0\<close> up, which no other
  character produces.
\<close>

datatype nonfinite = NaN | PosInf | NegInf

datatype json =
    JNull
  | JBool bool
  | JInt int
  | JFloat rat
  | JNonFinite nonfinite
  | JStr string
  | JArr "json list"
  | JObj "(string \<times> json) list"

text \<open>The exceptions that the code can let escape; none is caught anywhere in the file.
  \<open>ConnectionError\<close> stands for what \<^verbatim>\<open>requests\<close> raises when a request gets no answer.\<close>

datatype error =
    KeyError | IndexError | TypeError | AttributeError | JSONDecodeError | ValueError
  | OverflowError | UnicodeEncodeError | ConnectionError

definition then_res :: "error + 'a \<Rightarrow> ('a \<Rightarrow> error + 'b) \<Rightarrow> error + 'b" where
  "then_res r f = (case r of Inl e \<Rightarrow> Inl e | Inr x \<Rightarrow> f x)"

text \<open>\<^verbatim>\<open>key in v\<close>: key membership of a dict, element membership of a list, substring of a
  str; any other value is not iterable.\<close>

definition py_in :: "string \<Rightarrow> json \<Rightarrow> error + bool" where
  "py_in k v =
     (case v of
        JObj kvs \<Rightarrow> Inr (map_of kvs k \<noteq> None)
      | JArr xs \<Rightarrow> Inr (List.member xs (JStr k))
      | JStr s \<Rightarrow> Inr (sublist k s)
      | _ \<Rightarrow> Inl TypeError)"

text \<open>\<^verbatim>\<open>v[key]\<close> with a string key: only a dict answers, with \<^verbatim>\<open>KeyError\<close> for a key it
  lacks.\<close>

definition py_getitem :: "json \<Rightarrow> string \<Rightarrow> error + json" where
  "py_getitem v k =
     (case v of
        JObj kvs \<Rightarrow> (case map_of kvs k of None \<Rightarrow> Inl KeyError | Some x \<Rightarrow> Inr x)
      | _ \<Rightarrow> Inl TypeError)"

text \<open>\<^verbatim>\<open>v[0]\<close>: the first element of a list, the first character of a str (its lead byte
  and continuation bytes); a decoded dict has no integer key.\<close>

definition utf8_cont :: "char \<Rightarrow> bool" where
  "utf8_cont c = (128 \<le> (of_char c :: nat) \<and> (of_char c :: nat) < 192)"

definition py_first :: "json \<Rightarrow> error + json" where
  "py_first v =
     (case v of
        JArr xs \<Rightarrow> (case xs of [] \<Rightarrow> Inl IndexError | x # _ \<Rightarrow> Inr x)
      | JStr s \<Rightarrow> (case s of [] \<Rightarrow> Inl IndexError | c # cs \<Rightarrow> Inr (JStr (c # takeWhile utf8_cont cs)))
      | JObj kvs \<Rightarrow> Inl KeyError
      | _ \<Rightarrow> Inl TypeError)"

text \<open>\<^verbatim>\<open>v.get(key, default)\<close> is a method of dicts only.\<close>

definition py_get :: "json \<Rightarrow> string \<Rightarrow> json \<Rightarrow> error + json" where
  "py_get v k d =
     (case v of
        JObj kvs \<Rightarrow> (case map_of kvs k of None \<Rightarrow> Inr d | Some x \<Rightarrow> Inr x)
      | _ \<Rightarrow> Inl AttributeError)"

text \<open>Truth value of a decoded value, as \<^verbatim>\<open>if\<close> and \<^verbatim>\<open>and\<close> test it.\<close>

definition py_truthy :: "json \<Rightarrow> bool" where
  "py_truthy v =
     (case v of
        JNull \<Rightarrow> False
      | JBool b \<Rightarrow> b
      | JInt i \<Rightarrow> i \<noteq> 0
      | JFloat q \<Rightarrow> q \<noteq> 0
      | JNonFinite f \<Rightarrow> True
      | JStr s \<Rightarrow> s \<noteq> []
      | JArr xs \<Rightarrow> xs \<noteq> []
      | JObj kvs \<Rightarrow> kvs \<noteq> [])"

text \<open>The finite number a value counts as in arithmetic and comparisons (\<^verbatim>\<open>True\<close> is 1).\<close>

definition py_num :: "json \<Rightarrow> rat option" where
  "py_num v =
     (case v of
        JInt i \<Rightarrow> Some (of_int i)
      | JFloat q \<Rightarrow> Some q
      | JBool b \<Rightarrow> Some (if b then 1 else 0)
      | _ \<Rightarrow> None)"

text \<open>\<^verbatim>\<open>v == n\<close> for an int \<open>n\<close>: numbers compare by value, anything else is unequal.\<close>

definition py_eq_int :: "json \<Rightarrow> int \<Rightarrow> bool" where
  "py_eq_int v n = (case py_num v of None \<Rightarrow> False | Some q \<Rightarrow> q = of_int n)"

text \<open>\<^verbatim>\<open>v <= n\<close> for an int \<open>n\<close>: defined between numbers only; of the floats that are
  not finite only minus infinity is below an int.\<close>

definition py_le_int :: "json \<Rightarrow> int \<Rightarrow> error + bool" where
  "py_le_int v n =
     (case v of
        JNonFinite f \<Rightarrow> Inr (f = NegInf)
      | _ \<Rightarrow> (case py_num v of None \<Rightarrow> Inl TypeError | Some q \<Rightarrow> Inr (q \<le> of_int n)))"

text \<open>\<^verbatim>\<open>round(x)\<close> of a finite float: to the nearest integer, a tie going to the even
  one.\<close>

definition py_round :: "rat \<Rightarrow> int" where
  "py_round x =
     (let f = \<lfloor>x\<rfloor>; d = x - of_int f
      in if d < 1 / 2 then f
         else if 1 / 2 < d then f + 1
         else if even f then f else f + 1)"

text \<open>\<^verbatim>\<open>round(v)\<close> of a decoded value: an int is returned as it is, and a float that is
  not finite cannot be converted.\<close>

definition py_round_value :: "json \<Rightarrow> error + int" where
  "py_round_value v =
     (case v of
        JInt i \<Rightarrow> Inr i
      | JBool b \<Rightarrow> Inr (if b then 1 else 0)
      | JFloat q \<Rightarrow> Inr (py_round q)
      | JNonFinite f \<Rightarrow> Inl (if f = NaN then ValueError else OverflowError)
      | _ \<Rightarrow> Inl TypeError)"

subsection \<open>Float division\<close>

text \<open>
  The doubles are zero and the numbers \<open>m * 2 ^ k\<close> with \<open>m\<close> an integer below \<open>2 ^ 53\<close>
  in magnitude and \<open>k\<close> from \<open>-1074\<close> to \<open>971\<close>. \<open>ilog2 x\<close> is the integer \<open>e\<close> with
  \<open>2 ^ e \<le> x < 2 ^ (e + 1)\<close> for a positive \<open>x\<close>; \<open>double_round x\<close> is the value on the
  grid of \<open>x\<close> nearest to it, a tie going to the even \<open>m\<close>, before the range is looked
  at; at \<open>2 ^ 1024\<close> and beyond the result is an infinity.
\<close>

definition ilog2 :: "rat \<Rightarrow> int" where
  "ilog2 x =
     (let c = bitlen (fst (quotient_of x)) - bitlen (snd (quotient_of x))
      in if 2 powi c \<le> x then c else c - 1)"

definition double_round :: "rat \<Rightarrow> rat" where
  "double_round x =
     (if x = 0 then 0
      else let k = max (ilog2 \<bar>x\<bar> - 52) (- 1074)
           in of_int (py_round (x / 2 powi k)) * 2 powi k)"

definition float_of :: "rat \<Rightarrow> json" where
  "float_of x =
     (let y = double_round x
      in if 2 ^ 1024 \<le> y then JNonFinite PosInf
         else if y \<le> - (2 ^ 1024) then JNonFinite NegInf
         else JFloat y)"

text \<open>The conversion of an int to a float, and the quotient of two ints: both are
  rounded once and raise \<^verbatim>\<open>OverflowError\<close> where a float operation would give an
  infinity.\<close>

definition to_double :: "rat \<Rightarrow> error + rat" where
  "to_double x =
     (let y = double_round x
      in if 2 ^ 1024 \<le> \<bar>y\<bar> then Inl OverflowError else Inr y)"

text \<open>\<^verbatim>\<open>v / d\<close> for a positive float literal \<open>d\<close>, given by its decimal value: an int or
  bool is converted to a float first, the literal is the double nearest to \<open>d\<close>, and the
  quotient of the two doubles is rounded to a double.\<close>

definition py_truediv_float :: "json \<Rightarrow> rat \<Rightarrow> error + json" where
  "py_truediv_float v d =
     (case v of
        JNonFinite f \<Rightarrow> Inr (JNonFinite f)
      | JFloat q \<Rightarrow> Inr (float_of (q / double_round d))
      | _ \<Rightarrow>
          (case py_num v of
             None \<Rightarrow> Inl TypeError
           | Some q \<Rightarrow> then_res (to_double q) (\<lambda>a. Inr (float_of (a / double_round d)))))"

text \<open>\<^verbatim>\<open>v / n\<close> for a small positive int literal \<open>n\<close>: the quotient of two ints is the
  double nearest to the exact quotient; a float is divided by the float \<open>n\<close> is.\<close>

definition py_truediv_int :: "json \<Rightarrow> int \<Rightarrow> error + json" where
  "py_truediv_int v n =
     (case v of
        JNonFinite f \<Rightarrow> Inr (JNonFinite f)
      | JFloat q \<Rightarrow> Inr (float_of (q / of_int n))
      | _ \<Rightarrow>
          (case py_num v of
             None \<Rightarrow> Inl TypeError
           | Some q \<Rightarrow> then_res (to_double (q / of_int n)) (\<lambda>y. Inr (JFloat y))))"

subsection \<open>Strings\<close>

text \<open>\<^verbatim>\<open>str(i)\<close> of an int, in decimal.\<close>

definition digit_char :: "nat \<Rightarrow> char" where
  "digit_char d = char_of (48 + d)"

function str_nat :: "nat \<Rightarrow> string" where
  "str_nat n = (if n < 10 then [digit_char n] else str_nat (n div 10) @ [digit_char (n mod 10)])"
  by pat_completeness auto
termination
  by (relation "measure id") auto

definition str_int :: "int \<Rightarrow> string" where
  "str_int i = (if i < 0 then CHR ''-'' # str_nat (nat (- i)) else str_nat (nat i))"

definition utf8 :: "nat list \<Rightarrow> string" where
  "utf8 bs = map char_of bs"

text \<open>Whether a str holds a surrogate, which \<^verbatim>\<open>encode('utf-8')\<close> refuses.\<close>

fun has_surrogate :: "string \<Rightarrow> bool" where
  "has_surrogate (a # b # cs) =
     (((of_char a :: nat) = 237 \<and> 160 \<le> (of_char b :: nat)) \<or> has_surrogate (b # cs))"
| "has_surrogate cs = False"

text \<open>\<^verbatim>\<open>xs[i]\<close> on a list: a negative index counts from the end.\<close>

definition py_index :: "'a list \<Rightarrow> int \<Rightarrow> error + 'a" where
  "py_index xs i =
     (if 0 \<le> i \<and> i < int (length xs) then Inr (xs ! nat i)
      else if i < 0 \<and> - int (length xs) \<le> i then Inr (xs ! nat (int (length xs) + i))
      else Inl IndexError)"

section \<open>The interpreter, the configuration and the providers\<close>

text \<open>
  Three library functions are parameters of the model: \<^verbatim>\<open>json.loads\<close>, the rendering of the
  values whose \<^verbatim>\<open>str()\<close> is not spelled out here (floats, lists, dicts), and
  \<^verbatim>\<open>datetime.fromtimestamp(t).strftime("%H:%M")\<close>, which depends on the time zone of the
  process and raises on a value that is not a valid timestamp.
\<close>

record pylib =
  json_loads :: "string \<Rightarrow> error + json"
  repr_other :: "json \<Rightarrow> string"
  strftime_hm :: "json \<Rightarrow> error + string"

text \<open>\<^verbatim>\<open>str(v)\<close>, as an f-string renders a value.\<close>

definition py_str :: "pylib \<Rightarrow> json \<Rightarrow> string" where
  "py_str lib v =
     (case v of
        JStr s \<Rightarrow> s
      | JInt i \<Rightarrow> str_int i
      | JBool b \<Rightarrow> (if b then ''True'' else ''False'')
      | JNull \<Rightarrow> ''None''
      | _ \<Rightarrow> repr_other lib v)"

text \<open>Lines 6 to 11: the module's globals, read once from the environment
  (\<^verbatim>\<open>os.environ.get\<close> gives \<^verbatim>\<open>None\<close> for an unset variable) and never assigned again.\<close>

record config =
  TELEGRAM_BOT_TOKEN :: "string option"
  YS_API_KEY :: "string option"
  OW_API_KEY :: "string option"
  DD_API_KEY :: "string option"
  DD_SEC_KEY :: "string option"

definition MAX_VOICE_DURATION :: int where
  "MAX_VOICE_DURATION = 30"

text \<open>Line 5: the value every normal return of the handler gives.\<close>

record envelope =
  statusCode :: int
  body :: string

definition FUNC_RESPONSE :: envelope where
  "FUNC_RESPONSE = \<lparr>statusCode = 200, body = []\<rparr>"

text \<open>
  An HTTP answer as the code reads it: \<^verbatim>\<open>r.ok\<close>, \<^verbatim>\<open>r.json()\<close> (which raises when the body is
  not JSON: \<open>payload\<close> is \<open>None\<close> then) and \<^verbatim>\<open>r.content\<close>. The platform and the providers
  are functions from the request the code makes to what comes of it: an answer, or the
  exception \<^verbatim>\<open>requests\<close> raises when the request fails in transport (no connection, a
  timeout). The first two fields are the \<^verbatim>\<open>sendMessage\<close> and \<^verbatim>\<open>sendVoice\<close> endpoints.
\<close>

record response =
  ok :: bool
  payload :: "json option"
  content :: string

definition response_json :: "response \<Rightarrow> error + json" where
  "response_json r = (case payload r of None \<Rightarrow> Inl JSONDecodeError | Some j \<Rightarrow> Inr j)"

record remote =
  post_message :: "json \<Rightarrow> error + response"
  post_voice :: "json \<Rightarrow> error + response"
  clean_address :: "json \<Rightarrow> error + response"
  current_weather :: "json \<Rightarrow> json \<Rightarrow> error + response"
  get_file :: "json \<Rightarrow> error + response"
  file_download :: "json \<Rightarrow> error + response"
  recognize :: "string \<Rightarrow> error + response"

text \<open>
  Everything an invocation does to the world outside it is recorded, in order, as a
  \<open>call\<close>: the seven requests, and the two ways the code could change what a later
  invocation finds, an assignment to the module's globals and a change of the dict of
  line 5, which every return hands out.
\<close>

datatype call =
    SendMessage json
  | SendVoice json
  | GetFile json
  | FileDownload json
  | Recognize string
  | CleanAddress json
  | CurrentWeather json json
  | AssignGlobals config
  | MutateResponse envelope

text \<open>A computation yields a value or the exception that escaped, and the calls it made
  up to that point.\<close>

type_synonym 'a io = "(error + 'a) \<times> call list"

definition ret :: "'a \<Rightarrow> 'a io" where
  "ret x = (Inr x, [])"

definition lift :: "error + 'a \<Rightarrow> 'a io" where
  "lift r = (r, [])"

text \<open>A request: it is made, and it gives its answer or raises.\<close>

definition http :: "call \<Rightarrow> error + 'a \<Rightarrow> 'a io" where
  "http c outcome = (outcome, [c])"

definition bind_io :: "'a io \<Rightarrow> ('a \<Rightarrow> 'b io) \<Rightarrow> 'b io" where
  "bind_io m f =
     (case m of
        (Inl e, made) \<Rightarrow> (Inl e, made)
      | (Inr x, made) \<Rightarrow> (case f x of (r, later) \<Rightarrow> (r, made @ later)))"

section \<open>The fixed texts\<close>

text \<open>The string literals of the source, as UTF-8 bytes.\<close>

text \<open>Line 46, the help sent for the \<^verbatim>\<open>/start\<close> command.\<close>

definition start_text :: string where
  "start_text = utf8
     [0xD0, 0x92, 0xD0, 0xB2, 0xD0, 0xB5, 0xD0, 0xB4, 0xD0, 0xB8, 0xD1, 0x82, 0xD0, 0xB5,
      0x20, 0xD0, 0xB0, 0xD0, 0xB4, 0xD1, 0x80, 0xD0, 0xB5, 0xD1, 0x81, 0x20, 0xD1, 0x82,
      0xD0, 0xB5, 0xD0, 0xBA, 0xD1, 0x81, 0xD1, 0x82, 0xD0, 0xBE, 0xD0, 0xB2, 0xD1, 0x8B,
      0xD0, 0xBC, 0x20, 0xD1, 0x81, 0xD0, 0xBE, 0xD0, 0xBE, 0xD0, 0xB1, 0xD1, 0x89, 0xD0,
      0xB5, 0xD0, 0xBD, 0xD0, 0xB8, 0xD0, 0xB5, 0xD0, 0xBC, 0x2C, 0x20, 0xD0, 0xB3, 0xD0,
      0xBE, 0xD0, 0xBB, 0xD0, 0xBE, 0xD1, 0x81, 0xD0, 0xBE, 0xD0, 0xB2, 0xD1, 0x8B, 0xD0,
      0xBC, 0x20, 0xD1, 0x81, 0xD0, 0xBE, 0xD0, 0xBE, 0xD0, 0xB1, 0xD1, 0x89, 0xD0, 0xB5,
      0xD0, 0xBD, 0xD0, 0xB8, 0xD0, 0xB5, 0xD0, 0xBC, 0x20, 0xD0, 0xB8, 0xD0, 0xBB, 0xD0,
      0xB8, 0x20, 0xD0, 0xBE, 0xD1, 0x82, 0xD0, 0xBF, 0xD1, 0x80, 0xD0, 0xB0, 0xD0, 0xB2,
      0xD1, 0x8C, 0xD1, 0x82, 0xD0, 0xB5, 0x20, 0xD1, 0x81, 0xD0, 0xB2, 0xD0, 0xBE, 0xD1,
      0x8E, 0x20, 0xD0, 0xB3, 0xD0, 0xB5, 0xD0, 0xBE, 0xD0, 0xBB, 0xD0, 0xBE, 0xD0, 0xBA,
      0xD0, 0xB0, 0xD1, 0x86, 0xD0, 0xB8, 0xD1, 0x8E, 0x2C, 0x20, 0xD1, 0x87, 0xD1, 0x82,
      0xD0, 0xBE, 0xD0, 0xB1, 0xD1, 0x8B, 0x20, 0xD0, 0xBF, 0xD0, 0xBE, 0xD0, 0xBB, 0xD1,
      0x83, 0xD1, 0x87, 0xD0, 0xB8, 0xD1, 0x82, 0xD1, 0x8C, 0x20, 0xD0, 0xB8, 0xD0, 0xBD,
      0xD1, 0x84, 0xD0, 0xBE, 0xD1, 0x80, 0xD0, 0xBC, 0xD0, 0xB0, 0xD1, 0x86, 0xD0, 0xB8,
      0xD1, 0x8E, 0x20, 0xD0, 0xBE, 0x20, 0xD0, 0xBF, 0xD0, 0xBE, 0xD0, 0xB3, 0xD0, 0xBE,
      0xD0, 0xB4, 0xD0, 0xB5]"

text \<open>Line 62, for a voice message longer than the limit.\<close>

definition too_long_text :: string where
  "too_long_text = utf8
     [0xD0, 0xAF, 0x20, 0xD0, 0xBD, 0xD0, 0xB5, 0x20, 0xD0, 0xBC, 0xD0, 0xBE, 0xD0, 0xB3,
      0xD1, 0x83, 0x20, 0xD0, 0xBF, 0xD0, 0xBE, 0xD0, 0xBD, 0xD1, 0x8F, 0xD1, 0x82, 0xD1,
      0x8C, 0x20, 0xD0, 0xB3, 0xD0, 0xBE, 0xD0, 0xBB, 0xD0, 0xBE, 0xD1, 0x81, 0xD0, 0xBE,
      0xD0, 0xB2, 0xD0, 0xBE, 0xD0, 0xB5, 0x20, 0xD1, 0x81, 0xD0, 0xBE, 0xD0, 0xBE, 0xD0,
      0xB1, 0xD1, 0x89, 0xD0, 0xB5, 0xD0, 0xBD, 0xD0, 0xB8, 0xD0, 0xB5, 0x20, 0xD0, 0xB4,
      0xD0, 0xBB, 0xD0, 0xB8, 0xD1, 0x82, 0xD0, 0xB5, 0xD0, 0xBB, 0xD1, 0x8C, 0xD0, 0xBD,
      0xD0, 0xBE, 0xD1, 0x81, 0xD1, 0x82, 0xD1, 0x8C, 0xD1, 0x8E, 0x20, 0xD0, 0xB1, 0xD0,
      0xBE, 0xD0, 0xBB, 0xD0, 0xB5, 0xD0, 0xB5, 0x20, 0x33, 0x30, 0x20, 0xD1, 0x81, 0xD0,
      0xB5, 0xD0, 0xBA, 0xD1, 0x83, 0xD0, 0xBD, 0xD0, 0xB4, 0x2E]"

text \<open>Line 64, for a message with no location, text or voice.\<close>

definition unsupported_text :: string where
  "unsupported_text = utf8
     [0xD0, 0xAF, 0x20, 0xD0, 0xBD, 0xD0, 0xB5, 0x20, 0xD0, 0xBC, 0xD0, 0xBE, 0xD0, 0xB3,
      0xD1, 0x83, 0x20, 0xD0, 0xBE, 0xD1, 0x82, 0xD0, 0xB2, 0xD0, 0xB5, 0xD1, 0x82, 0xD0,
      0xB8, 0xD1, 0x82, 0xD1, 0x8C, 0x20, 0xD0, 0xBD, 0xD0, 0xB0, 0x20, 0xD1, 0x82, 0xD0,
      0xB0, 0xD0, 0xBA, 0xD0, 0xBE, 0xD0, 0xB9, 0x20, 0xD1, 0x82, 0xD0, 0xB8, 0xD0, 0xBF,
      0x20, 0xD1, 0x81, 0xD0, 0xBE, 0xD0, 0xBE, 0xD0, 0xB1, 0xD1, 0x89, 0xD0, 0xB5, 0xD0,
      0xBD, 0xD0, 0xB8, 0xD1, 0x8F, 0x2E, 0x0A, 0x0A, 0xD0, 0x9D, 0xD0, 0xBE, 0x20, 0xD0,
      0xBC, 0xD0, 0xBE, 0xD0, 0xB3, 0xD1, 0x83, 0x20, 0xD0, 0xBE, 0xD1, 0x82, 0xD0, 0xB2,
      0xD0, 0xB5, 0xD1, 0x82, 0xD0, 0xB8, 0xD1, 0x82, 0xD1, 0x8C, 0x20, 0xD0, 0xBD, 0xD0,
      0xB0, 0x3A, 0x0A, 0x2D, 0x20, 0xD0, 0xA2, 0xD0, 0xB5, 0xD0, 0xBA, 0xD1, 0x81, 0xD1,
      0x82, 0xD0, 0xBE, 0xD0, 0xB2, 0xD0, 0xBE, 0xD0, 0xB5, 0x20, 0xD1, 0x81, 0xD0, 0xBE,
      0xD0, 0xBE, 0xD0, 0xB1, 0xD1, 0x89, 0xD0, 0xB5, 0xD0, 0xBD, 0xD0, 0xB8, 0xD0, 0xB5,
      0x20, 0xD1, 0x81, 0x20, 0xD0, 0xBD, 0xD0, 0xB0, 0xD0, 0xB7, 0xD0, 0xB2, 0xD0, 0xB0,
      0xD0, 0xBD, 0xD0, 0xB8, 0xD0, 0xB5, 0xD0, 0xBC, 0x20, 0xD0, 0xBD, 0xD0, 0xB0, 0xD1,
      0x81, 0xD0, 0xB5, 0xD0, 0xBB, 0xD0, 0xB5, 0xD0, 0xBD, 0xD0, 0xBD, 0xD0, 0xBE, 0xD0,
      0xB3, 0xD0, 0xBE, 0x20, 0xD0, 0xBF, 0xD1, 0x83, 0xD0, 0xBD, 0xD0, 0xBA, 0xD1, 0x82,
      0xD0, 0xB0, 0x2E, 0x0A, 0x2D, 0x20, 0xD0, 0x93, 0xD0, 0xBE, 0xD0, 0xBB, 0xD0, 0xBE,
      0xD1, 0x81, 0xD0, 0xBE, 0xD0, 0xB2, 0xD0, 0xBE, 0xD0, 0xB5, 0x20, 0xD1, 0x81, 0xD0,
      0xBE, 0xD0, 0xBE, 0xD0, 0xB1, 0xD1, 0x89, 0xD0, 0xB5, 0xD0, 0xBD, 0xD0, 0xB8, 0xD0,
      0xB5, 0x20, 0xD1, 0x81, 0x20, 0xD0, 0xBD, 0xD0, 0xB0, 0xD0, 0xB7, 0xD0, 0xB2, 0xD0,
      0xB0, 0xD0, 0xBD, 0xD0, 0xB8, 0xD0, 0xB5, 0xD0, 0xBC, 0x20, 0xD0, 0xBD, 0xD0, 0xB0,
      0xD1, 0x81, 0xD0, 0xB5, 0xD0, 0xBB, 0xD0, 0xB5, 0xD0, 0xBD, 0xD0, 0xBD, 0xD0, 0xBE,
      0xD0, 0xB3, 0xD0, 0xBE, 0x20, 0xD0, 0xBF, 0xD1, 0x83, 0xD0, 0xBD, 0xD0, 0xBA, 0xD1,
      0x82, 0xD0, 0xB0, 0x2E, 0x0A, 0x2D, 0x20, 0xD0, 0xA1, 0xD0, 0xBE, 0xD0, 0xBE, 0xD0,
      0xB1, 0xD1, 0x89, 0xD0, 0xB5, 0xD0, 0xBD, 0xD0, 0xB8, 0xD0, 0xB5, 0x20, 0xD1, 0x81,
      0x20, 0xD1, 0x82, 0xD0, 0xBE, 0xD1, 0x87, 0xD0, 0xBA, 0xD0, 0xBE, 0xD0, 0xB9, 0x20,
      0xD0, 0xBD, 0xD0, 0xB0, 0x20, 0xD0, 0xBA, 0xD0, 0xB0, 0xD1, 0x80, 0xD1, 0x82, 0xD0,
      0xB5, 0x2E]"

text \<open>Line 78, before and after the quoted address.\<close>

definition not_found_prefix :: string where
  "not_found_prefix = utf8
     [0xD0, 0xAF, 0x20, 0xD0, 0xBD, 0xD0, 0xB5, 0x20, 0xD0, 0xBD, 0xD0, 0xB0, 0xD1, 0x88,
      0xD0, 0xB5, 0xD0, 0xBB, 0x20, 0xD0, 0xBD, 0xD0, 0xB0, 0xD1, 0x81, 0xD0, 0xB5, 0xD0,
      0xBB, 0xD0, 0xB5, 0xD0, 0xBD, 0xD0, 0xBD, 0xD1, 0x8B, 0xD0, 0xB9, 0x20, 0xD0, 0xBF,
      0xD1, 0x83, 0xD0, 0xBD, 0xD0, 0xBA, 0xD1, 0x82, 0x20, 0x22]"

definition not_found_suffix :: string where
  "not_found_suffix = utf8
     [0x22, 0x2E]"

text \<open>Line 143, when speech recognition fails.\<close>

definition not_recognized_text :: string where
  "not_recognized_text = utf8
     [0xD0, 0x9D, 0xD0, 0xB5, 0x20, 0xD1, 0x83, 0xD0, 0xB4, 0xD0, 0xB0, 0xD0, 0xBB, 0xD0,
      0xBE, 0xD1, 0x81, 0xD1, 0x8C, 0x20, 0xD1, 0x80, 0xD0, 0xB0, 0xD1, 0x81, 0xD0, 0xBF,
      0xD0, 0xBE, 0xD0, 0xB7, 0xD0, 0xBD, 0xD0, 0xB0, 0xD1, 0x82, 0xD1, 0x8C, 0x20, 0xD0,
      0xB3, 0xD0, 0xBE, 0xD0, 0xBB, 0xD0, 0xBE, 0xD1, 0x81, 0xD0, 0xBE, 0xD0, 0xB2, 0xD0,
      0xBE, 0xD0, 0xB5, 0x20, 0xD1, 0x81, 0xD0, 0xBE, 0xD0, 0xBE, 0xD0, 0xB1, 0xD1, 0x89,
      0xD0, 0xB5, 0xD0, 0xBD, 0xD0, 0xB8, 0xD0, 0xB5, 0x2E]"

text \<open>Line 105, the default of the visibility field.\<close>

definition no_data :: string where
  "no_data = utf8
     [0xD0, 0xBD, 0xD0, 0xB5, 0xD1, 0x82, 0x20, 0xD0, 0xB4, 0xD0, 0xB0, 0xD0, 0xBD, 0xD0,
      0xBD, 0xD1, 0x8B, 0xD1, 0x85]"

text \<open>Lines 111 to 114, the fixed parts of the report in order.\<close>

definition lit_temperature :: string where
  "lit_temperature = utf8
     [0x2E, 0x0A, 0xD0, 0xA2, 0xD0, 0xB5, 0xD0, 0xBC, 0xD0, 0xBF, 0xD0, 0xB5, 0xD1, 0x80,
      0xD0, 0xB0, 0xD1, 0x82, 0xD1, 0x83, 0xD1, 0x80, 0xD0, 0xB0, 0x20]"

definition lit_feels_like :: string where
  "lit_feels_like = utf8
     [0x20, 0xE2, 0x84, 0x83, 0x2C, 0x20, 0xD0, 0xBE, 0xD1, 0x89, 0xD1, 0x83, 0xD1, 0x89,
      0xD0, 0xB0, 0xD0, 0xB5, 0xD1, 0x82, 0xD1, 0x81, 0xD1, 0x8F, 0x20, 0xD0, 0xBA, 0xD0,
      0xB0, 0xD0, 0xBA, 0x20]"

definition lit_pressure :: string where
  "lit_pressure = utf8
     [0x20, 0xE2, 0x84, 0x83, 0x2E, 0x0A, 0xD0, 0x90, 0xD1, 0x82, 0xD0, 0xBC, 0xD0, 0xBE,
      0xD1, 0x81, 0xD1, 0x84, 0xD0, 0xB5, 0xD1, 0x80, 0xD0, 0xBD, 0xD0, 0xBE, 0xD0, 0xB5,
      0x20, 0xD0, 0xB4, 0xD0, 0xB0, 0xD0, 0xB2, 0xD0, 0xBB, 0xD0, 0xB5, 0xD0, 0xBD, 0xD0,
      0xB8, 0xD0, 0xB5, 0x20]"

definition lit_humidity :: string where
  "lit_humidity = utf8
     [0x20, 0xD0, 0xBC, 0xD0, 0xBC, 0x20, 0xD1, 0x80, 0xD1, 0x82, 0x2E, 0x20, 0xD1, 0x81,
      0xD1, 0x82, 0x2E, 0x0A, 0xD0, 0x92, 0xD0, 0xBB, 0xD0, 0xB0, 0xD0, 0xB6, 0xD0, 0xBD,
      0xD0, 0xBE, 0xD1, 0x81, 0xD1, 0x82, 0xD1, 0x8C, 0x20]"

definition lit_visibility :: string where
  "lit_visibility = utf8
     [0x25, 0x2E, 0x0A, 0xD0, 0x92, 0xD0, 0xB8, 0xD0, 0xB4, 0xD0, 0xB8, 0xD0, 0xBC, 0xD0,
      0xBE, 0xD1, 0x81, 0xD1, 0x82, 0xD1, 0x8C, 0x20]"

definition lit_wind :: string where
  "lit_wind = utf8
     [0x20, 0xD0, 0xBC, 0xD0, 0xB5, 0xD1, 0x82, 0xD1, 0x80, 0xD0, 0xBE, 0xD0, 0xB2, 0x2E,
      0x0A, 0xD0, 0x92, 0xD0, 0xB5, 0xD1, 0x82, 0xD0, 0xB5, 0xD1, 0x80, 0x20]"

definition lit_wind_unit :: string where
  "lit_wind_unit = utf8
     [0x20, 0xD0, 0xBC, 0x2F, 0xD1, 0x81, 0x20]"

definition lit_sunrise :: string where
  "lit_sunrise = utf8
     [0x2E, 0x0A, 0xD0, 0x92, 0xD0, 0xBE, 0xD1, 0x81, 0xD1, 0x85, 0xD0, 0xBE, 0xD0, 0xB4,
      0x20, 0xD1, 0x81, 0xD0, 0xBE, 0xD0, 0xBB, 0xD0, 0xBD, 0xD1, 0x86, 0xD0, 0xB0, 0x20]"

definition lit_sunset :: string where
  "lit_sunset = utf8
     [0x20, 0xD0, 0x9C, 0xD0, 0xA1, 0xD0, 0x9A, 0x2E, 0x20, 0xD0, 0x97, 0xD0, 0xB0, 0xD0,
      0xBA, 0xD0, 0xB0, 0xD1, 0x82, 0x20]"

definition lit_end :: string where
  "lit_end = utf8
     [0x20, 0xD0, 0x9C, 0xD0, 0xA1, 0xD0, 0x9A, 0x2E]"

text \<open>Line 148, the eight compass points: north, north-east, east, south-east, south,
  south-west, west, north-west.\<close>

definition dir_N :: string where
  "dir_N = utf8
     [0xD0, 0xA1]"

definition dir_NE :: string where
  "dir_NE = utf8
     [0xD0, 0xA1, 0xD0, 0x92]"

definition dir_E :: string where
  "dir_E = utf8
     [0xD0, 0x92]"

definition dir_SE :: string where
  "dir_SE = utf8
     [0xD0, 0xAE, 0xD0, 0x92]"

definition dir_S :: string where
  "dir_S = utf8
     [0xD0, 0xAE]"

definition dir_SW :: string where
  "dir_SW = utf8
     [0xD0, 0xAE, 0xD0, 0x97]"

definition dir_W :: string where
  "dir_W = utf8
     [0xD0, 0x97]"

definition dir_NW :: string where
  "dir_NW = utf8
     [0xD0, 0xA1, 0xD0, 0x97]"

section \<open>The functions of the bot\<close>

text \<open>\<^verbatim>\<open>v[a][b]\<close>, the way the code reads a nested field.\<close>

definition py_getitem2 :: "json \<Rightarrow> string \<Rightarrow> string \<Rightarrow> error + json" where
  "py_getitem2 v a b = then_res (py_getitem v a) (\<lambda>inner. py_getitem inner b)"

text \<open>Lines 15 to 26, \<^verbatim>\<open>send_message\<close>: the two ids are read first, then a str goes to
  \<^verbatim>\<open>sendMessage\<close>, a dict to \<^verbatim>\<open>sendVoice\<close>, and anything else is dropped. The answer of the
  platform is not looked at; a request that fails in transport raises.\<close>

definition text_payload :: "json \<Rightarrow> json \<Rightarrow> json \<Rightarrow> json" where
  "text_payload chat_id message_id text =
     JObj [(''chat_id'', chat_id), (''reply_to_message_id'', message_id), (''text'', text)]"

definition voice_payload :: "json \<Rightarrow> json \<Rightarrow> json \<Rightarrow> json" where
  "voice_payload chat_id message_id voice =
     JObj [(''chat_id'', chat_id), (''reply_to_message_id'', message_id), (''voice'', voice)]"

definition send_message :: "remote \<Rightarrow> json \<Rightarrow> json \<Rightarrow> unit io" where
  "send_message rem text message =
     bind_io (lift (py_getitem message ''message_id'')) (\<lambda>message_id.
     bind_io (lift (py_getitem2 message ''chat'' ''id'')) (\<lambda>chat_id.
       (case text of
          JStr s \<Rightarrow>
            bind_io (http (SendMessage (text_payload chat_id message_id text))
                          (post_message rem (text_payload chat_id message_id text)))
              (\<lambda>answer. ret ())
        | JObj d \<Rightarrow>
            bind_io (http (SendVoice (voice_payload chat_id message_id text))
                          (post_voice rem (voice_payload chat_id message_id text)))
              (\<lambda>answer. ret ())
        | _ \<Rightarrow> ret ())))"

text \<open>Lines 146 to 150, \<^verbatim>\<open>get_wind_direction\<close>.\<close>

definition directions :: "string list" where
  "directions = [dir_N, dir_NE, dir_E, dir_SE, dir_S, dir_SW, dir_W, dir_NW]"

definition get_wind_direction :: "json \<Rightarrow> error + string" where
  "get_wind_direction degrees =
     then_res (py_truediv_int degrees 45) (\<lambda>quotient.
     then_res (py_round_value quotient) (\<lambda>rounded.
       py_index directions (rounded mod 8)))"

text \<open>Lines 153 to 157, \<^verbatim>\<open>get_time_from_timestamp\<close>.\<close>

definition get_time_from_timestamp :: "pylib \<Rightarrow> json \<Rightarrow> error + string" where
  "get_time_from_timestamp lib timestamp = strftime_hm lib timestamp"

text \<open>Lines 94 to 116, \<^verbatim>\<open>get_weather_info\<close>. The local variables of lines 100 to 109 are
  the fields of a record, filled in the order of the source, so that the first field that
  cannot be read decides the exception; lines 111 to 114 render them.\<close>

record weather_fields =
  weather_description :: json
  temperature :: int
  feels_like :: int
  pressure :: int
  humidity :: int
  visibility :: json
  wind_speed :: json
  wind_direction :: string
  sunrise :: string
  sunset :: string

definition read_weather :: "pylib \<Rightarrow> json \<Rightarrow> error + weather_fields" where
  "read_weather lib info_weather =
     then_res (then_res (then_res (py_getitem info_weather ''weather'') py_first)
                 (\<lambda>w. py_getitem w ''description'')) (\<lambda>d.
     then_res (then_res (py_getitem2 info_weather ''main'' ''temp'') py_round_value) (\<lambda>t.
     then_res (then_res (py_getitem2 info_weather ''main'' ''feels_like'') py_round_value) (\<lambda>fl.
     then_res (then_res (then_res (py_getitem2 info_weather ''main'' ''pressure'')
                 (\<lambda>hpa. py_truediv_float hpa (1333 / 1000))) py_round_value) (\<lambda>mmhg.
     then_res (then_res (py_getitem2 info_weather ''main'' ''humidity'') py_round_value) (\<lambda>h.
     then_res (py_get info_weather ''visibility'' (JStr no_data)) (\<lambda>v.
     then_res (py_getitem2 info_weather ''wind'' ''speed'') (\<lambda>ws.
     then_res (then_res (py_getitem2 info_weather ''wind'' ''deg'') get_wind_direction) (\<lambda>wd.
     then_res (then_res (py_getitem2 info_weather ''sys'' ''sunrise'')
                 (get_time_from_timestamp lib)) (\<lambda>sr.
     then_res (then_res (py_getitem2 info_weather ''sys'' ''sunset'')
                 (get_time_from_timestamp lib)) (\<lambda>ss.
       Inr \<lparr>weather_description = d, temperature = t, feels_like = fl,
            pressure = mmhg, humidity = h, visibility = v, wind_speed = ws,
            wind_direction = wd, sunrise = sr, sunset = ss\<rparr>))))))))))"

definition echo_text_of :: "pylib \<Rightarrow> weather_fields \<Rightarrow> string" where
  "echo_text_of lib f =
     py_str lib (weather_description f) @ lit_temperature @ str_int (temperature f) @
     lit_feels_like @ str_int (feels_like f) @
     lit_pressure @ str_int (pressure f) @
     lit_humidity @ str_int (humidity f) @
     lit_visibility @ py_str lib (visibility f) @
     lit_wind @ py_str lib (wind_speed f) @ lit_wind_unit @ wind_direction f @
     lit_sunrise @ sunrise f @ lit_sunset @ sunset f @ lit_end"

definition get_weather_info :: "pylib \<Rightarrow> remote \<Rightarrow> json \<Rightarrow> json \<Rightarrow> string io" where
  "get_weather_info lib rem lat lon =
     bind_io (http (CurrentWeather lat lon) (current_weather rem lat lon)) (\<lambda>r.
     lift (then_res (response_json r) (\<lambda>info_weather.
           then_res (read_weather lib info_weather) (\<lambda>f.
             Inr (echo_text_of lib f)))))"

text \<open>Lines 82 to 91, \<^verbatim>\<open>get_coords_from_address\<close>. The pair \<^verbatim>\<open>(None, None)\<close> is
  \<open>(JNull, JNull)\<close>.\<close>

definition get_coords_from_address :: "remote \<Rightarrow> json \<Rightarrow> (json \<times> json) io" where
  "get_coords_from_address rem address =
     bind_io (http (CleanAddress address) (clean_address rem address)) (\<lambda>r_address.
     lift (if ok r_address then
             then_res (then_res (response_json r_address) py_first) (\<lambda>result.
             then_res (py_getitem result ''qc'') (\<lambda>qc.
               if py_eq_int qc 0 then
                 then_res (py_getitem result ''geo_lat'') (\<lambda>geo_lat.
                 then_res (py_getitem result ''geo_lon'') (\<lambda>geo_lon.
                   Inr (geo_lat, geo_lon)))
               else Inr (JNull, JNull)))
           else Inr (JNull, JNull)))"

text \<open>Lines 72 to 79, \<^verbatim>\<open>get_echo_text\<close>.\<close>

definition not_found_text :: "pylib \<Rightarrow> json \<Rightarrow> string" where
  "not_found_text lib address = not_found_prefix @ py_str lib address @ not_found_suffix"

definition get_echo_text :: "pylib \<Rightarrow> remote \<Rightarrow> json \<Rightarrow> string io" where
  "get_echo_text lib rem address =
     bind_io (get_coords_from_address rem address) (\<lambda>(lat, lon).
       if py_truthy lat \<and> py_truthy lon then get_weather_info lib rem lat lon
       else ret (not_found_text lib address))"

text \<open>Lines 119 to 123, \<^verbatim>\<open>process_location_message\<close>.\<close>

definition process_location_message :: "pylib \<Rightarrow> remote \<Rightarrow> json \<Rightarrow> string io" where
  "process_location_message lib rem location =
     bind_io (lift (py_getitem location ''latitude'')) (\<lambda>lat.
     bind_io (lift (py_getitem location ''longitude'')) (\<lambda>lon.
       get_weather_info lib rem lat lon))"

text \<open>Lines 126 to 143, \<^verbatim>\<open>process_voice_message\<close>.\<close>

definition process_voice_message :: "pylib \<Rightarrow> remote \<Rightarrow> json \<Rightarrow> string io" where
  "process_voice_message lib rem message =
     bind_io (lift (py_getitem2 message ''voice'' ''file_id'')) (\<lambda>file_id.
     bind_io (http (GetFile file_id) (get_file rem file_id)) (\<lambda>r_file.
     bind_io (lift (then_res (then_res (response_json r_file) (\<lambda>j. py_getitem j ''result''))
                      (\<lambda>res. py_getitem res ''file_path''))) (\<lambda>file_path.
     bind_io (http (FileDownload file_path) (file_download rem file_path)) (\<lambda>r_file_download.
     bind_io (http (Recognize (content r_file_download))
                (recognize rem (content r_file_download))) (\<lambda>r_stt.
       if ok r_stt then
         bind_io (lift (then_res (response_json r_stt) (\<lambda>j. py_getitem j ''result'')))
           (\<lambda>address. get_echo_text lib rem address)
       else ret not_recognized_text)))))"

text \<open>Lines 29 to 69, \<^verbatim>\<open>handler\<close>. The event is the dict the hosting platform passes; its
  \<^verbatim>\<open>context\<close> argument is never read. \<open>reply\<close> is lines 68 and 69, which the branches that
  do not return early fall through to; \<open>dispatch\<close> is lines 42 to 69 and \<open>handler\<close> the
  guards of lines 31 to 40 before them.\<close>

type_synonym event = "string \<rightharpoonup> string"

definition reply :: "remote \<Rightarrow> string \<Rightarrow> json \<Rightarrow> envelope io" where
  "reply rem echo_text message_in =
     bind_io (send_message rem (JStr echo_text) message_in) (\<lambda>_. ret FUNC_RESPONSE)"

text \<open>\<^verbatim>\<open>text.encode('utf-8').decode('utf-8')\<close>: only a str has the method, and it
  refuses a str that holds a surrogate; any other str comes back unchanged.\<close>

definition py_recode :: "json \<Rightarrow> error + json" where
  "py_recode v =
     (case v of
        JStr s \<Rightarrow> (if has_surrogate s then Inl UnicodeEncodeError else Inr (JStr s))
      | _ \<Rightarrow> Inl AttributeError)"

definition dispatch :: "config \<Rightarrow> pylib \<Rightarrow> remote \<Rightarrow> json \<Rightarrow> envelope io" where
  "dispatch cfg lib rem message_in =
     bind_io (lift (py_in ''location'' message_in)) (\<lambda>has_location.
     if has_location then
       bind_io (lift (py_getitem message_in ''location'')) (\<lambda>location.
       bind_io (process_location_message lib rem location) (\<lambda>echo_text.
         reply rem echo_text message_in))
     else
       bind_io (lift (py_in ''text'' message_in)) (\<lambda>has_text.
       if has_text then
         bind_io (lift (py_getitem message_in ''text'')) (\<lambda>text.
         if text = JStr ''/start'' then
           bind_io (send_message rem (JStr start_text) message_in) (\<lambda>_. ret FUNC_RESPONSE)
         else if DD_API_KEY cfg = None \<or> DD_SEC_KEY cfg = None then ret FUNC_RESPONSE
         else
           bind_io (lift (py_recode text)) (\<lambda>address.
           bind_io (get_echo_text lib rem address) (\<lambda>echo_text.
             reply rem echo_text message_in)))
       else
         bind_io (lift (py_in ''voice'' message_in)) (\<lambda>has_voice.
         if has_voice then
           if YS_API_KEY cfg = None then ret FUNC_RESPONSE
           else
             bind_io (lift (py_getitem2 message_in ''voice'' ''duration'')) (\<lambda>voice_duration.
             bind_io (lift (py_le_int voice_duration MAX_VOICE_DURATION)) (\<lambda>short.
             if short then
               bind_io (process_voice_message lib rem message_in) (\<lambda>echo_text.
                 reply rem echo_text message_in)
             else reply rem too_long_text message_in))
         else reply rem unsupported_text message_in)))"

definition handler :: "config \<Rightarrow> pylib \<Rightarrow> remote \<Rightarrow> event \<Rightarrow> envelope io" where
  "handler cfg lib rem event =
     (if TELEGRAM_BOT_TOKEN cfg = None then ret FUNC_RESPONSE
      else if OW_API_KEY cfg = None then ret FUNC_RESPONSE
      else
        bind_io (lift (case event ''body'' of
                         None \<Rightarrow> Inl KeyError
                       | Some b \<Rightarrow> json_loads lib b)) (\<lambda>update.
        bind_io (lift (py_in ''message'' update)) (\<lambda>has_message.
        if \<not> has_message then ret FUNC_RESPONSE
        else
          bind_io (lift (py_getitem update ''message'')) (\<lambda>message_in.
            dispatch cfg lib rem message_in))))"

text \<open>The outbound replies among the calls made.\<close>

fun is_send :: "call \<Rightarrow> bool" where
  "is_send (SendMessage _) = True"
| "is_send (SendVoice _) = True"
| "is_send _ = False"

definition sends :: "call list \<Rightarrow> call list" where
  "sends cs = filter is_send cs"

text \<open>Three properties of a computation, used to follow the replies through the code:
  it sends nothing, it sends at most once, and whatever it returns is the fixed value of
  line 5.\<close>

definition quiet :: "'a io \<Rightarrow> bool" where
  "quiet m = (sends (snd m) = [])"

definition single :: "'a io \<Rightarrow> bool" where
  "single m = (length (sends (snd m)) \<le> 1)"

definition fixed_return :: "envelope io \<Rightarrow> bool" where
  "fixed_return m = (\<forall>r. fst m = Inr r \<longrightarrow> r = FUNC_RESPONSE)"

text \<open>A computation that changes nothing a later invocation could find.\<close>

fun is_write :: "call \<Rightarrow> bool" where
  "is_write (AssignGlobals c) = True"
| "is_write (MutateResponse r) = True"
| "is_write c = False"

definition readonly :: "'a io \<Rightarrow> bool" where
  "readonly m = (filter is_write (snd m) = [])"

text \<open>
  What outlives an invocation in the process: the module's globals and the dict of line
  5. An invocation reads the globals as it finds them, and the writes among its calls, in
  order, give what the next one finds.
\<close>

record module_state =
  globals :: config
  func_response :: envelope

fun apply_write :: "call \<Rightarrow> module_state \<Rightarrow> module_state" where
  "apply_write (AssignGlobals c) s = s\<lparr>globals := c\<rparr>"
| "apply_write (MutateResponse r) s = s\<lparr>func_response := r\<rparr>"
| "apply_write c s = s"

definition state_after :: "call list \<Rightarrow> module_state \<Rightarrow> module_state" where
  "state_after cs s = fold apply_write cs s"

text \<open>One invocation in a process whose module state is \<open>s\<close>. The credentials are
  the globals of the moment, and the value of \<^verbatim>\<open>return FUNC_RESPONSE\<close> is the dict the
  module holds when the handler returns.\<close>

definition invoke ::
  "module_state \<Rightarrow> pylib \<Rightarrow> remote \<Rightarrow> event \<Rightarrow> ((error + envelope) \<times> call list) \<times> module_state" where
  "invoke s lib rem event =
     (case handler (globals s) lib rem event of
        (outcome, made) \<Rightarrow>
          (((case outcome of
               Inl e \<Rightarrow> Inl e
             | Inr r \<Rightarrow> Inr (func_response (state_after made s))), made),
           state_after made s))"

text \<open>The answer of the providers to a request; a write is no request. Two sets of
  providers give the same answers to a list of calls when they agree on each of them.\<close>

fun outcome_of :: "remote \<Rightarrow> call \<Rightarrow> (error + response) option" where
  "outcome_of rem (SendMessage request) = Some (post_message rem request)"
| "outcome_of rem (SendVoice request) = Some (post_voice rem request)"
| "outcome_of rem (GetFile file_id) = Some (get_file rem file_id)"
| "outcome_of rem (FileDownload file_path) = Some (file_download rem file_path)"
| "outcome_of rem (Recognize audio) = Some (recognize rem audio)"
| "outcome_of rem (CleanAddress address) = Some (clean_address rem address)"
| "outcome_of rem (CurrentWeather lat lon) = Some (current_weather rem lat lon)"
| "outcome_of rem (AssignGlobals c) = None"
| "outcome_of rem (MutateResponse r) = None"

definition same_answers :: "remote \<Rightarrow> remote \<Rightarrow> call list \<Rightarrow> bool" where
  "same_answers rem rem' cs = list_all (\<lambda>c. outcome_of rem c = outcome_of rem' c) cs"

text \<open>A computation run against \<open>rem\<close> and its counterpart run against \<open>rem'\<close>: the second
  is the first as soon as the providers agree on the requests the first made.\<close>

definition determined :: "remote \<Rightarrow> remote \<Rightarrow> 'a io \<Rightarrow> 'a io \<Rightarrow> bool" where
  "determined rem rem' m m' = (same_answers rem rem' (snd m) \<longrightarrow> m' = m)"

text \<open>The texts of the replies among the calls made.\<close>

fun reply_texts :: "call list \<Rightarrow> json list" where
  "reply_texts [] = []"
| "reply_texts (SendMessage (JObj d) # cs) =
     (case map_of d ''text'' of None \<Rightarrow> reply_texts cs | Some t \<Rightarrow> t # reply_texts cs)"
| "reply_texts (_ # cs) = reply_texts cs"

text \<open>The requests of the voice path: the file lookup, the download and the recognition.\<close>

fun is_voice_call :: "call \<Rightarrow> bool" where
  "is_voice_call (GetFile _) = True"
| "is_voice_call (FileDownload _) = True"
| "is_voice_call (Recognize _) = True"
| "is_voice_call _ = False"

text \<open>A decoded dict without one key.\<close>

definition without_key :: "string \<Rightarrow> (string \<times> json) list \<Rightarrow> (string \<times> json) list" where
  "without_key k kvs = filter (\<lambda>kv. fst kv \<noteq> k) kvs"


section \<open>Concrete inputs\<close>

text \<open>
  A configuration with every credential set, an interpreter for a process running in
  UTC, and providers with fixed answers. \<open>demo_loads\<close> decodes exactly the bodies listed
  here, each to the value \<^verbatim>\<open>json.loads\<close> gives for it, and rejects \<open>not_json_body\<close>.
\<close>

definition demo_config :: config where
  "demo_config =
     \<lparr>TELEGRAM_BOT_TOKEN = Some ''t'', YS_API_KEY = Some ''y'', OW_API_KEY = Some ''w'',
      DD_API_KEY = Some ''d'', DD_SEC_KEY = Some ''s''\<rparr>"

definition message_with :: "string \<Rightarrow> json \<Rightarrow> json" where
  "message_with k v =
     JObj [(''message_id'', JInt 7), (''chat'', JObj [(''id'', JInt 42)]), (k, v)]"

definition update_with :: "string \<Rightarrow> json \<Rightarrow> json" where
  "update_with k v = JObj [(''message'', message_with k v)]"

definition start_body :: string where
  \<open>start_body = ''{"message": {"message_id": 7, "chat": {"id": 42}, "text": "/start"}}''\<close>

definition text_body :: string where
  \<open>text_body = ''{"message": {"message_id": 7, "chat": {"id": 42}, "text": "Moscow"}}''\<close>

definition location_body :: string where
  \<open>location_body = ''{"message": {"message_id": 7, "chat": {"id": 42}, "location": {"latitude": 55, "longitude": 37}}}''\<close>

definition long_voice_body :: string where
  \<open>long_voice_body = ''{"message": {"message_id": 7, "chat": {"id": 42}, "voice": {"file_id": "f1", "duration": 31}}}''\<close>

definition short_voice_body :: string where
  \<open>short_voice_body = ''{"message": {"message_id": 7, "chat": {"id": 42}, "voice": {"file_id": "f1", "duration": 30}}}''\<close>

definition no_message_body :: string where
  \<open>no_message_body = ''{"update_id": 1}''\<close>

definition not_json_body :: string where
  "not_json_body = ''not json''"

definition voice_of :: "int \<Rightarrow> json" where
  "voice_of d = JObj [(''file_id'', JStr ''f1''), (''duration'', JInt d)]"

definition demo_loads :: "string \<Rightarrow> error + json" where
  "demo_loads s =
     (if s = start_body then Inr (update_with ''text'' (JStr ''/start''))
      else if s = text_body then Inr (update_with ''text'' (JStr ''Moscow''))
      else if s = location_body then
        Inr (update_with ''location'' (JObj [(''latitude'', JInt 55), (''longitude'', JInt 37)]))
      else if s = long_voice_body then Inr (update_with ''voice'' (voice_of 31))
      else if s = short_voice_body then Inr (update_with ''voice'' (voice_of 30))
      else if s = no_message_body then Inr (JObj [(''update_id'', JInt 1)])
      else Inl JSONDecodeError)"

definition two_digits :: "nat \<Rightarrow> string" where
  "two_digits n = (if n < 10 then CHR ''0'' # str_nat n else str_nat n)"

definition utc_hm :: "json \<Rightarrow> error + string" where
  "utc_hm v =
     (case v of
        JInt t \<Rightarrow> Inr (two_digits (nat (t div 3600 mod 24)) @ '':'' @ two_digits (nat (t div 60 mod 60)))
      | _ \<Rightarrow> Inl TypeError)"

definition demo_repr :: "json \<Rightarrow> string" where
  "demo_repr v = (if v = JFloat (7 / 2) then ''3.5'' else ''...'')"

definition demo_lib :: pylib where
  "demo_lib = \<lparr>json_loads = demo_loads, repr_other = demo_repr, strftime_hm = utc_hm\<rparr>"

definition answer :: "json \<Rightarrow> response" where
  "answer j = \<lparr>ok = True, payload = Some j, content = []\<rparr>"

definition refusal :: "json \<Rightarrow> response" where
  "refusal j = \<lparr>ok = False, payload = Some j, content = []\<rparr>"

definition demo_post :: "json \<Rightarrow> error + response" where
  "demo_post request = Inr (answer (JObj [(''ok'', JBool True)]))"

definition no_answer :: "json \<Rightarrow> error + response" where
  "no_answer request = Inl ConnectionError"

definition candidate :: "json \<Rightarrow> json \<Rightarrow> json \<Rightarrow> json" where
  "candidate qc lat lon = JArr [JObj [(''qc'', qc), (''geo_lat'', lat), (''geo_lon'', lon)]]"

definition demo_clean_address :: "json \<Rightarrow> error + response" where
  "demo_clean_address address =
     (if address = JStr ''Moscow'' then
        Inr (answer (candidate (JInt 0) (JStr ''55.75'') (JStr ''37.61'')))
      else if address = JStr ''Springfield'' then
        Inr (answer (candidate (JInt 1) (JStr ''39.8'') (JStr ''-89.6'')))
      else if address = JStr ''Gulf of Guinea'' then Inr (answer (candidate (JInt 0) (JInt 0) (JInt 0)))
      else if address = JStr ''Nowhere'' then Inr (answer (candidate (JInt 0) (JStr []) (JStr [])))
      else if address = JStr ''Void'' then Inr (answer (JArr []))
      else Inr (refusal (JObj [(''message'', JStr ''Forbidden'')])))"

definition full_weather :: "(string \<times> json) list" where
  "full_weather =
     [(''weather'', JArr [JObj [(''description'', JStr ''clear'')]]),
      (''main'', JObj [(''temp'', JFloat (37 / 2)), (''feels_like'', JFloat (35 / 2)),
                       (''pressure'', JInt 1013), (''humidity'', JInt 40)]),
      (''visibility'', JInt 10000),
      (''wind'', JObj [(''speed'', JInt 3), (''deg'', JInt 40)]),
      (''sys'', JObj [(''sunrise'', JInt 1700020800), (''sunset'', JInt 1700053200)])]"

definition demo_current_weather :: "json \<Rightarrow> json \<Rightarrow> error + response" where
  "demo_current_weather lat lon =
     (if lat = JStr ''55.75'' then Inr (answer (JObj full_weather))
      else if lat = JInt 55 then Inr (answer (JObj (without_key ''visibility'' full_weather)))
      else Inr (refusal (JObj [(''cod'', JInt 400), (''message'', JStr ''wrong latitude'')])))"

definition demo_get_file :: "json \<Rightarrow> error + response" where
  "demo_get_file file_id =
     Inr (answer (JObj [(''ok'', JBool True),
                        (''result'', JObj [(''file_id'', file_id),
                                           (''file_path'', JStr ''voice/file_1.oga'')])]))"

definition demo_file_download :: "json \<Rightarrow> error + response" where
  "demo_file_download file_path = Inr \<lparr>ok = True, payload = None, content = ''OggS''\<rparr>"

definition demo_recognize :: "string \<Rightarrow> error + response" where
  "demo_recognize audio = Inr (answer (JObj [(''result'', JStr ''Moscow'')]))"

definition demo_remote :: remote where
  "demo_remote =
     \<lparr>post_message = demo_post, post_voice = demo_post,
      clean_address = demo_clean_address, current_weather = demo_current_weather,
      get_file = demo_get_file, file_download = demo_file_download, recognize = demo_recognize\<rparr>"

text \<open>The same providers when the weather service rejects the key of the process, and
  when the geocoder cannot be reached.\<close>

definition rejected_weather :: "json \<Rightarrow> json \<Rightarrow> error + response" where
  "rejected_weather lat lon =
     Inr (refusal (JObj [(''cod'', JInt 401), (''message'', JStr ''Invalid API key'')]))"

definition rejecting_remote :: remote where
  "rejecting_remote = demo_remote\<lparr>current_weather := rejected_weather\<rparr>"

definition offline_remote :: remote where
  "offline_remote = demo_remote\<lparr>clean_address := no_answer\<rparr>"

definition event_of :: "string \<Rightarrow> event" where
  "event_of b = [''body'' \<mapsto> b]"

definition event_without_body :: event where
  "event_without_body = Map.empty"

definition ids_of_demo :: "string \<Rightarrow> json" where
  "ids_of_demo text = text_payload (JInt 42) (JInt 7) (JStr text)"

definition demo_state :: module_state where
  "demo_state = \<lparr>globals = demo_config, func_response = FUNC_RESPONSE\<rparr>"

text \<open>What lines 100 to 109 extract from \<open>full_weather\<close>.\<close>

definition demo_fields :: weather_fields where
  "demo_fields =
     \<lparr>weather_description = JStr ''clear'', temperature = 18, feels_like = 18, pressure = 760,
      humidity = 40, visibility = JInt 10000, wind_speed = JInt 3, wind_direction = dir_NE,
      sunrise = ''04:00'', sunset = ''13:00''\<rparr>"

section \<open>Properties\<close>

subsection \<open>Sequencing and the calls of each function\<close>

lemma bind_io_alt:
  "bind_io m f =
     (case fst m of
        Inl e \<Rightarrow> (Inl e, snd m)
      | Inr x \<Rightarrow> (fst (f x), snd m @ snd (f x)))"
  by (cases m) (simp add: bind_io_def split: sum.splits prod.splits)

lemma bind_lift_Inr: "bind_io (lift (Inr x)) f = f x"
  by (simp add: bind_io_alt lift_def)

lemma bind_lift_Inl: "bind_io (lift (Inl e)) f = (Inl e, [])"
  by (simp add: bind_io_alt lift_def)

lemma bind_ret: "bind_io (ret x) f = f x"
  by (simp add: bind_io_alt ret_def)

lemma bind_http: "bind_io (http c (Inr a)) f = (fst (f a), c # snd (f a))"
  by (simp add: bind_io_alt http_def)

lemma bind_http_failed: "bind_io (http c (Inl e)) f = (Inl e, [c])"
  by (simp add: bind_io_alt http_def)

lemma snd_bind_http: "snd (bind_io (http c outcome) (\<lambda>x. lift (g x))) = [c]"
  by (cases outcome) (simp_all add: bind_io_alt http_def lift_def)

lemma quiet_lift: "quiet (lift r)"
  by (simp add: quiet_def lift_def sends_def)

lemma quiet_ret: "quiet (ret x)"
  by (simp add: quiet_def ret_def sends_def)

lemma quiet_http: "\<not> is_send c \<Longrightarrow> quiet (http c outcome)"
  by (simp add: quiet_def http_def sends_def)

lemma quiet_bind:
  assumes "quiet m" and "\<And>x. quiet (f x)"
  shows "quiet (bind_io m f)"
  using assms by (cases "fst m") (simp_all add: quiet_def bind_io_alt sends_def)

lemma quiet_if: "(c \<Longrightarrow> quiet a) \<Longrightarrow> (\<not> c \<Longrightarrow> quiet b) \<Longrightarrow> quiet (if c then a else b)"
  by simp

lemma quiet_single: "quiet m \<Longrightarrow> single m"
  by (simp add: quiet_def single_def)

lemma single_bind:
  assumes "quiet m" and "\<And>x. single (f x)"
  shows "single (bind_io m f)"
  using assms by (cases "fst m") (simp_all add: quiet_def single_def bind_io_alt sends_def)

lemma single_then_return:
  assumes "single m"
  shows "single (bind_io m (\<lambda>_. ret y))"
  using assms by (cases "fst m") (simp_all add: single_def bind_io_alt sends_def ret_def)

lemma single_if: "(c \<Longrightarrow> single a) \<Longrightarrow> (\<not> c \<Longrightarrow> single b) \<Longrightarrow> single (if c then a else b)"
  by simp

lemma fixed_return_ret: "fixed_return (ret FUNC_RESPONSE)"
  by (simp add: fixed_return_def ret_def)

lemma fixed_return_bind:
  assumes "\<And>x. fixed_return (f x)"
  shows "fixed_return (bind_io m f)"
  using assms by (cases "fst m") (simp_all add: fixed_return_def bind_io_alt)

lemma fixed_return_if:
  "(c \<Longrightarrow> fixed_return a) \<Longrightarrow> (\<not> c \<Longrightarrow> fixed_return b) \<Longrightarrow> fixed_return (if c then a else b)"
  by simp

lemma calls_get_weather_info: "snd (get_weather_info lib rem lat lon) = [CurrentWeather lat lon]"
  unfolding get_weather_info_def by (rule snd_bind_http)

lemma calls_get_coords: "snd (get_coords_from_address rem address) = [CleanAddress address]"
  unfolding get_coords_from_address_def by (rule snd_bind_http)

lemma quiet_get_weather_info: "quiet (get_weather_info lib rem lat lon)"
  by (simp add: quiet_def calls_get_weather_info sends_def)

lemma quiet_get_coords: "quiet (get_coords_from_address rem address)"
  by (simp add: quiet_def calls_get_coords sends_def)

lemma quiet_get_echo_text: "quiet (get_echo_text lib rem address)"
  unfolding get_echo_text_def
proof (rule quiet_bind [OF quiet_get_coords])
  fix x :: "json \<times> json"
  show "quiet (case x of (lat, lon) \<Rightarrow>
          if py_truthy lat \<and> py_truthy lon then get_weather_info lib rem lat lon
          else ret (not_found_text lib address))"
    by (cases x) (simp add: quiet_get_weather_info quiet_ret)
qed

lemma quiet_process_location: "quiet (process_location_message lib rem location)"
  unfolding process_location_message_def
  by (intro quiet_bind quiet_lift quiet_get_weather_info)

lemma quiet_process_voice: "quiet (process_voice_message lib rem message)"
  unfolding process_voice_message_def
  by (intro quiet_bind quiet_lift quiet_http quiet_if quiet_get_echo_text quiet_ret) simp_all

lemma single_http: "single (http c outcome)"
  by (simp add: single_def http_def sends_def)

lemma single_send_message: "single (send_message rem text message)"
  unfolding send_message_def
proof (intro single_bind quiet_lift)
  fix message_id chat_id
  show "single (case text of
          JStr s \<Rightarrow>
            bind_io (http (SendMessage (text_payload chat_id message_id text))
                          (post_message rem (text_payload chat_id message_id text)))
              (\<lambda>answer. ret ())
        | JObj d \<Rightarrow>
            bind_io (http (SendVoice (voice_payload chat_id message_id text))
                          (post_voice rem (voice_payload chat_id message_id text)))
              (\<lambda>answer. ret ())
        | _ \<Rightarrow> ret ())"
    by (cases "text") (simp_all add: single_then_return single_http quiet_single [OF quiet_ret])
qed

lemma single_reply: "single (reply rem echo_text message_in)"
  unfolding reply_def by (rule single_then_return [OF single_send_message])

lemma fixed_return_reply: "fixed_return (reply rem echo_text message_in)"
  unfolding reply_def by (rule fixed_return_bind) (rule fixed_return_ret)

lemma single_dispatch: "single (dispatch cfg lib rem message_in)"
  unfolding dispatch_def
  by (intro single_bind single_if quiet_lift quiet_process_location quiet_get_echo_text
        quiet_process_voice single_reply single_then_return single_send_message
        quiet_single [OF quiet_ret])

lemma fixed_return_dispatch: "fixed_return (dispatch cfg lib rem message_in)"
  unfolding dispatch_def
  by (intro fixed_return_bind fixed_return_if fixed_return_reply fixed_return_ret)

lemma single_handler: "single (handler cfg lib rem event)"
  unfolding handler_def
  by (intro single_bind single_if quiet_lift single_dispatch quiet_single [OF quiet_ret])

lemma fixed_return_handler: "fixed_return (handler cfg lib rem event)"
  unfolding handler_def
  by (intro fixed_return_bind fixed_return_if fixed_return_dispatch fixed_return_ret)

subsection \<open>Nothing is written\<close>

lemma readonly_lift: "readonly (lift r)"
  by (simp add: readonly_def lift_def)

lemma readonly_ret: "readonly (ret x)"
  by (simp add: readonly_def ret_def)

lemma readonly_http: "\<not> is_write c \<Longrightarrow> readonly (http c outcome)"
  by (simp add: readonly_def http_def)

lemma readonly_bind:
  assumes "readonly m" and "\<And>x. readonly (f x)"
  shows "readonly (bind_io m f)"
  using assms by (cases "fst m") (simp_all add: readonly_def bind_io_alt)

lemma readonly_if:
  "(c \<Longrightarrow> readonly a) \<Longrightarrow> (\<not> c \<Longrightarrow> readonly b) \<Longrightarrow> readonly (if c then a else b)"
  by simp

lemma readonly_get_weather_info: "readonly (get_weather_info lib rem lat lon)"
  by (simp add: readonly_def calls_get_weather_info)

lemma readonly_get_coords: "readonly (get_coords_from_address rem address)"
  by (simp add: readonly_def calls_get_coords)

lemma readonly_get_echo_text: "readonly (get_echo_text lib rem address)"
  unfolding get_echo_text_def
proof (rule readonly_bind [OF readonly_get_coords])
  fix x :: "json \<times> json"
  show "readonly (case x of (lat, lon) \<Rightarrow>
          if py_truthy lat \<and> py_truthy lon then get_weather_info lib rem lat lon
          else ret (not_found_text lib address))"
    by (cases x) (simp add: readonly_get_weather_info readonly_ret)
qed

lemma readonly_process_location: "readonly (process_location_message lib rem location)"
  unfolding process_location_message_def
  by (intro readonly_bind readonly_lift readonly_get_weather_info)

lemma readonly_process_voice: "readonly (process_voice_message lib rem message)"
  unfolding process_voice_message_def
  by (intro readonly_bind readonly_lift readonly_http readonly_if readonly_get_echo_text readonly_ret)
     simp_all

lemma readonly_send_message: "readonly (send_message rem text message)"
  unfolding send_message_def
proof (intro readonly_bind readonly_lift)
  fix message_id chat_id
  show "readonly (case text of
          JStr s \<Rightarrow>
            bind_io (http (SendMessage (text_payload chat_id message_id text))
                          (post_message rem (text_payload chat_id message_id text)))
              (\<lambda>answer. ret ())
        | JObj d \<Rightarrow>
            bind_io (http (SendVoice (voice_payload chat_id message_id text))
                          (post_voice rem (voice_payload chat_id message_id text)))
              (\<lambda>answer. ret ())
        | _ \<Rightarrow> ret ())"
    by (cases "text") (simp_all add: readonly_bind readonly_http readonly_ret)
qed

lemma readonly_reply: "readonly (reply rem echo_text message_in)"
  unfolding reply_def by (intro readonly_bind readonly_send_message readonly_ret)

lemma readonly_dispatch: "readonly (dispatch cfg lib rem message_in)"
  unfolding dispatch_def
  by (intro readonly_bind readonly_if readonly_lift readonly_process_location
        readonly_get_echo_text readonly_process_voice readonly_reply readonly_send_message
        readonly_ret)

lemma readonly_handler: "readonly (handler cfg lib rem event)"
  unfolding handler_def
  by (intro readonly_bind readonly_if readonly_lift readonly_dispatch readonly_ret)

lemma state_after_readonly: "filter is_write cs = [] \<Longrightarrow> state_after cs s = s"
proof (induction cs)
  case Nil
  then show ?case
    by (simp add: state_after_def)
next
  case (Cons c cs)
  then show ?case
    by (cases c) (simp_all add: state_after_def)
qed

subsection \<open>Rounding a quotient of integers\<close>

lemma py_round_between:
  assumes "of_int n - 1 / 2 < y" and "y < of_int n + 1 / 2"
  shows "py_round y = n"
proof -
  have "\<lfloor>y\<rfloor> = n \<or> \<lfloor>y\<rfloor> = n - 1"
    using assms by linarith
  then show ?thesis
  proof
    assume f: "\<lfloor>y\<rfloor> = n"
    then have "y - of_int \<lfloor>y\<rfloor> < 1 / 2"
      using assms by simp
    with f show ?thesis
      by (simp add: py_round_def Let_def)
  next
    assume f: "\<lfloor>y\<rfloor> = n - 1"
    then have "1 / 2 < y - of_int \<lfloor>y\<rfloor>"
      using assms by simp
    with f show ?thesis
      by (simp add: py_round_def Let_def)
  qed
qed

lemma py_round_odd_denominator:
  fixes a b :: int
  assumes b: "0 < b" "odd b"
  shows "of_int (py_round (of_int a / of_int b)) - 1 / 2 + 1 / (2 * of_int b) \<le> (of_int a / of_int b :: rat)
       \<and> (of_int a / of_int b :: rat) \<le> of_int (py_round (of_int a / of_int b)) + 1 / 2 - 1 / (2 * of_int b)"
proof -
  let ?x = "of_int a / of_int b :: rat"
  have fl: "\<lfloor>?x\<rfloor> = a div b"
    by (simp add: floor_divide_of_int_eq)
  have bq: "(0::rat) < of_int b"
    using b by simp
  have "of_int a = (of_int (a div b) * of_int b + of_int (a mod b) :: rat)"
    by (metis of_int_add of_int_mult div_mult_mod_eq)
  then have d: "?x - of_int (a div b) = of_int (a mod b) / of_int b"
    using bq by (simp add: field_simps)
  have dd: "?x - of_int \<lfloor>?x\<rfloor> = of_int (a mod b) / of_int b"
    by (simp only: fl d)
  have r: "0 \<le> a mod b" "a mod b < b"
    using b by simp_all
  have ne: "2 * (a mod b) \<noteq> b"
  proof
    assume "2 * (a mod b) = b"
    then have "even b"
      by (metis dvd_triv_left)
    with b(2) show False
      by simp
  qed
  show ?thesis
  proof (cases "2 * (a mod b) < b")
    case True
    then have "2 * (a mod b) + 1 \<le> b"
      by simp
    then have "(of_int (2 * (a mod b) + 1) :: rat) \<le> of_int b"
      by (simp only: of_int_le_iff)
    then have le: "(2 * of_int (a mod b) + 1 :: rat) \<le> of_int b"
      by simp
    then have lt: "of_int (a mod b) / of_int b < (1 / 2 :: rat)"
      using bq by (simp add: field_simps)
    have p: "py_round ?x = a div b"
      unfolding py_round_def Let_def dd using lt by (simp only: if_True fl)
    have "of_int (a mod b) / of_int b \<le> (1 / 2 - 1 / (2 * of_int b) :: rat)"
      using bq le by (simp add: field_simps)
    moreover have "(0::rat) \<le> of_int (a mod b) / of_int b"
      using r bq by simp
    moreover have "(1 / (2 * of_int b) :: rat) \<le> 1 / 2"
      using b by (simp add: field_simps)
    ultimately show ?thesis
      using d unfolding p by linarith
  next
    case False
    with ne have "b + 1 \<le> 2 * (a mod b)"
      by simp
    then have "(of_int (b + 1) :: rat) \<le> of_int (2 * (a mod b))"
      by (simp only: of_int_le_iff)
    then have ge: "(of_int b + 1 :: rat) \<le> 2 * of_int (a mod b)"
      by simp
    then have gt: "(1 / 2 :: rat) < of_int (a mod b) / of_int b"
      using bq by (simp add: field_simps)
    have nlt: "\<not> of_int (a mod b) / of_int b < (1 / 2 :: rat)"
      using gt by linarith
    have p: "py_round ?x = a div b + 1"
      unfolding py_round_def Let_def dd using gt nlt by (simp only: if_True if_False fl)
    have "(of_int b + 1) / (2 * of_int b) \<le> (2 * of_int (a mod b)) / (2 * of_int b :: rat)"
      using ge bq by (intro divide_right_mono) simp_all
    moreover have "(of_int b + 1) / (2 * of_int b) = (1 / 2 + 1 / (2 * of_int b) :: rat)"
      using bq by (simp add: field_simps)
    moreover have "(2 * of_int (a mod b)) / (2 * of_int b :: rat) = of_int (a mod b) / of_int b"
      by simp
    ultimately have "(1 / 2 + 1 / (2 * of_int b) :: rat) \<le> of_int (a mod b) / of_int b"
      by simp
    moreover have "of_int (a mod b) / of_int b < (1 :: rat)"
      using r bq by simp
    moreover have "(0 :: rat) < 1 / (2 * of_int b)"
      using bq by simp
    ultimately show ?thesis
      using d unfolding p by linarith
  qed
qed

lemma py_round_stable:
  fixes a b :: int
  assumes "0 < b" and "odd b" and "\<bar>y - of_int a / of_int b\<bar> < 1 / (2 * of_int b)"
  shows "py_round y = py_round (of_int a / of_int b)"
proof (rule py_round_between)
  from py_round_odd_denominator [OF assms(1,2), of a] assms(3)
  show "of_int (py_round (of_int a / of_int b)) - 1 / 2 < y"
    by linarith
  from py_round_odd_denominator [OF assms(1,2), of a] assms(3)
  show "y < of_int (py_round (of_int a / of_int b)) + 1 / 2"
    by linarith
qed

text \<open>
  For an integer number of hPa the quotient by 1.333 is never within 1/2666 of a tie, and
  for an integer bearing the quotient by 45 is never within 1/90 of one. Any value that
  close to the exact quotient, as a float quotient is for inputs of ordinary size, rounds
  to the same integer.
\<close>

lemma pressure_rounding_stable:
  fixes hpa :: int
  assumes "\<bar>y - of_int hpa / (1333 / 1000)\<bar> < 1 / 2666"
  shows "py_round y = py_round (of_int hpa / (1333 / 1000))"
proof -
  have e: "(of_int hpa / (1333 / 1000) :: rat) = of_int (1000 * hpa) / of_int 1333"
    by simp
  have "py_round y = py_round (of_int (1000 * hpa) / of_int 1333)"
  proof (rule py_round_stable)
    show "(0::int) < 1333" and "odd (1333::int)"
      by simp_all
    from assms show "\<bar>y - of_int (1000 * hpa) / of_int 1333\<bar> < 1 / (2 * of_int 1333)"
      unfolding e by simp
  qed
  then show ?thesis
    unfolding e .
qed

lemma bearing_rounding_stable:
  fixes degrees :: int
  assumes "\<bar>y - of_int degrees / 45\<bar> < 1 / 90"
  shows "py_round y = py_round (of_int degrees / 45)"
proof -
  have "py_round y = py_round (of_int degrees / of_int 45)"
  proof (rule py_round_stable)
    show "(0::int) < 45" and "odd (45::int)"
      by simp_all
    from assms show "\<bar>y - of_int degrees / of_int 45\<bar> < 1 / (2 * of_int 45)"
      by simp
  qed
  then show ?thesis
    by simp
qed

subsection \<open>The error of a float operation\<close>

lemma py_round_error: "\<bar>of_int (py_round y) - y\<bar> \<le> 1 / 2"
proof -
  have "of_int \<lfloor>y\<rfloor> \<le> y" and "y < of_int \<lfloor>y\<rfloor> + 1"
    by linarith+
  then show ?thesis
    by (auto simp add: py_round_def Let_def)
qed

lemma ilog2_lower:
  assumes "0 < x"
  shows "2 powi ilog2 x \<le> x"
proof -
  obtain a b where q: "quotient_of x = (a, b)"
    by (cases "quotient_of x")
  then have b: "0 < b" and x: "x = of_int a / of_int b"
    using quotient_of_denom_pos [OF q] quotient_of_div [OF q] by simp_all
  with assms have a: "0 < a"
    by (simp add: zero_less_divide_iff)
  let ?c = "bitlen a - bitlen b"
  show ?thesis
  proof (cases "2 powi ?c \<le> x")
    case True
    then show ?thesis
      by (simp add: ilog2_def q Let_def)
  next
    case False
    have la: "(2::rat) powi (bitlen a - 1) \<le> of_int a"
    proof -
      have "1 \<le> bitlen a"
        using a bitlen_bounds [OF a] bitlen_nonneg [of a]
        by (metis bitlen_eq_zero_iff int_one_le_iff_zero_less leD le_less)
      then have "(2::rat) powi (bitlen a - 1) = 2 ^ nat (bitlen a - 1)"
        by (simp add: power_int_def)
      also have "\<dots> = of_int (2 ^ nat (bitlen a - 1))"
        by simp
      also have "\<dots> \<le> of_int a"
        using bitlen_bounds [OF a] by (simp only: of_int_le_iff)
      finally show ?thesis .
    qed
    have lb: "of_int b \<le> (2::rat) powi bitlen b"
    proof -
      have "(of_int b :: rat) \<le> of_int (2 ^ nat (bitlen b))"
        using bitlen_bounds [OF b] by (simp only: of_int_le_iff) simp
      also have "\<dots> = 2 powi bitlen b"
        using bitlen_nonneg [of b] by (simp add: power_int_def)
      finally show ?thesis .
    qed
    have "(2::rat) powi (?c - 1) = 2 powi (bitlen a - 1) / 2 powi bitlen b"
      by (simp add: power_int_diff [symmetric] algebra_simps)
    also have "\<dots> \<le> of_int a / of_int b"
      using la lb a b by (intro frac_le) simp_all
    finally have "(2::rat) powi (?c - 1) \<le> x"
      by (simp add: x)
    with False show ?thesis
      by (simp add: ilog2_def q Let_def)
  qed
qed

lemma double_round_error:
  assumes "x \<noteq> 0" and "2 powi (- 1022) \<le> \<bar>x\<bar>"
  shows "\<bar>double_round x - x\<bar> \<le> \<bar>x\<bar> / 2 ^ 53"
proof -
  define k where "k = max (ilog2 \<bar>x\<bar> - 52) (- 1074)"
  have p: "(0::rat) < 2 powi k"
    by simp
  have lo: "(2::rat) powi (k + 52) \<le> \<bar>x\<bar>"
  proof (cases "- 1074 \<le> ilog2 \<bar>x\<bar> - 52")
    case True
    then have "k + 52 = ilog2 \<bar>x\<bar>"
      by (simp add: k_def)
    with ilog2_lower [of "\<bar>x\<bar>"] assms(1) show ?thesis
      by simp
  next
    case False
    then have e: "k + 52 = - 1022"
      by (simp add: k_def)
    from assms(2) show ?thesis
      unfolding e .
  qed
  have d: "double_round x = of_int (py_round (x / 2 powi k)) * 2 powi k"
    using assms(1) by (simp add: double_round_def k_def Let_def)
  have "double_round x - x = (of_int (py_round (x / 2 powi k)) - x / 2 powi k) * 2 powi k"
    using p by (simp add: d field_simps)
  then have "\<bar>double_round x - x\<bar> = \<bar>of_int (py_round (x / 2 powi k)) - x / 2 powi k\<bar> * 2 powi k"
    using p by (simp add: abs_mult)
  also have "\<dots> \<le> (1 / 2) * 2 powi k"
    using py_round_error [of "x / 2 powi k"] p by (intro mult_right_mono) simp_all
  also have "(1 / 2) * (2::rat) powi k = 2 powi (k + 52) / 2 ^ 53"
    by (simp add: power_int_add)
  also have "\<dots> \<le> \<bar>x\<bar> / 2 ^ 53"
    using lo by (intro divide_right_mono) simp_all
  finally show ?thesis .
qed

lemma py_round_of_int: "py_round (of_int n) = n"
  by (simp add: py_round_def Let_def)

lemma double_round_of_int:
  assumes "\<bar>i\<bar> < 2 ^ 53"
  shows "double_round (of_int i) = of_int i"
proof (cases "i = 0")
  case True
  then show ?thesis
    by (simp add: double_round_def)
next
  case False
  define k where "k = max (ilog2 \<bar>of_int i\<bar> - 52) (- 1074)"
  have "(2::rat) powi ilog2 \<bar>of_int i\<bar> \<le> \<bar>of_int i\<bar>"
    using False by (intro ilog2_lower) simp
  also have "\<bar>of_int i :: rat\<bar> < 2 powi 53"
  proof -
    have "(of_int \<bar>i\<bar> :: rat) < of_int (2 ^ 53)"
      using assms by (simp only: of_int_less_iff)
    then show ?thesis
      by simp
  qed
  finally have "(2::rat) powi ilog2 \<bar>of_int i\<bar> < 2 powi 53" .
  then have "ilog2 \<bar>of_int i\<bar> < 53"
    by (rule power_int_le_imp_less_exp [rotated]) simp_all
  then have k: "k \<le> 0"
    by (simp add: k_def)
  then have pk: "(2::rat) powi k = 1 / 2 ^ nat (- k)"
    by (simp add: power_int_def field_simps)
  have "of_int i / (2::rat) powi k = of_int (i * 2 ^ nat (- k))"
    by (simp add: pk)
  then have "py_round (of_int i / 2 powi k) = i * 2 ^ nat (- k)"
    by (simp only: py_round_of_int)
  then have "of_int (py_round (of_int i / 2 powi k)) * (2::rat) powi k = of_int i"
    by (simp add: pk)
  with False show ?thesis
    by (simp add: double_round_def k_def [symmetric] Let_def)
qed

lemma tiny_below_half: "(2::rat) powi (- 1022) \<le> 1 / 2 ^ 10"
proof -
  have "(2::rat) powi (- 1022) \<le> 2 powi (- 10)"
    by (intro power_int_increasing) simp_all
  then show ?thesis
    by (simp add: power_int_minus field_simps)
qed

lemma bearing_quotient:
  fixes d :: int
  assumes "\<bar>d\<bar> < 2 ^ 52"
  shows "\<exists>y. py_truediv_int (JInt d) 45 = Inr (JFloat y) \<and> py_round y = py_round (of_int d / 45)"
proof -
  let ?x = "of_int d / 45 :: rat"
  have b: "\<bar>of_int d :: rat\<bar> < 2 ^ 52"
  proof -
    have "(of_int \<bar>d\<bar> :: rat) < of_int (2 ^ 52)"
      using assms by (simp only: of_int_less_iff)
    then show ?thesis
      by simp
  qed
  have e: "\<bar>double_round ?x - ?x\<bar> < 1 / 90"
  proof (cases "d = 0")
    case True
    then show ?thesis
      by (simp add: double_round_def)
  next
    case False
    then have "1 \<le> \<bar>d\<bar>"
      by simp
    then have "(of_int 1 :: rat) \<le> of_int \<bar>d\<bar>"
      by (simp only: of_int_le_iff)
    then have one: "(1::rat) \<le> \<bar>of_int d\<bar>"
      by simp
    then have "(1 / 2 ^ 10 :: rat) \<le> \<bar>?x\<bar>"
      by simp
    with tiny_below_half have n: "2 powi (- 1022) \<le> \<bar>?x\<bar>"
      by (rule order_trans)
    have "?x \<noteq> 0"
      using False by simp
    from double_round_error [OF this n] have "\<bar>double_round ?x - ?x\<bar> \<le> \<bar>?x\<bar> / 2 ^ 53" .
    also have "\<bar>?x\<bar> / 2 ^ 53 < 1 / 90"
      using b by simp
    finally show ?thesis .
  qed
  have "\<bar>double_round ?x\<bar> < 2 ^ 1024"
  proof -
    have "\<bar>double_round ?x\<bar> \<le> \<bar>double_round ?x - ?x\<bar> + \<bar>?x\<bar>"
      by linarith
    also have "\<dots> < 1 / 90 + 2 ^ 52"
      using e b by simp
    also have "\<dots> < (2 ^ 1024 :: rat)"
      by simp
    finally show ?thesis .
  qed
  then have t: "py_truediv_int (JInt d) 45 = Inr (JFloat (double_round ?x))"
    by (simp add: py_truediv_int_def py_num_def to_double_def Let_def then_res_def)
  have "py_round (double_round ?x) = py_round ?x"
    using e by (rule bearing_rounding_stable)
  with t show ?thesis
    by blast
qed

lemma double_1333: "double_round (1333 / 1000) = 6003298303284871 / 4503599627370496"
  by code_simp

lemma pressure_quotient:
  fixes hpa :: int
  assumes "\<bar>hpa\<bar> \<le> 10 ^ 9"
  shows "\<exists>y. py_truediv_float (JInt hpa) (1333 / 1000) = Inr (JFloat y) \<and>
             py_round y = py_round (of_int hpa / (1333 / 1000))"
proof -
  let ?c = "6003298303284871 / 4503599627370496 :: rat"
  let ?x = "of_int hpa / ?c"
  have b: "\<bar>of_int hpa :: rat\<bar> \<le> 10 ^ 9"
  proof -
    have "(of_int \<bar>hpa\<bar> :: rat) \<le> of_int (10 ^ 9)"
      using assms by (simp only: of_int_le_iff)
    then show ?thesis
      by simp
  qed
  have small: "\<bar>hpa\<bar> < 2 ^ 53"
    using assms by simp
  have conv: "to_double (of_int hpa) = Inr (of_int hpa)"
    using b by (simp add: to_double_def Let_def double_round_of_int [OF small])
  have xb: "\<bar>?x\<bar> \<le> \<bar>of_int hpa\<bar>"
    by (simp add: abs_divide field_simps)
  have lit: "\<bar>?x - of_int hpa / (1333 / 1000)\<bar> = \<bar>of_int hpa\<bar> * (168 / 8002396638278733043)"
  proof -
    have "?x - of_int hpa / (1333 / 1000) = of_int hpa * (168 / 8002396638278733043)"
      by (simp add: field_simps)
    then show ?thesis
      by (simp add: abs_mult)
  qed
  have e: "\<bar>double_round ?x - ?x\<bar> \<le> \<bar>?x\<bar> / 2 ^ 53"
  proof (cases "hpa = 0")
    case True
    then show ?thesis
      by (simp add: double_round_def)
  next
    case False
    then have "1 \<le> \<bar>hpa\<bar>"
      by simp
    then have "(of_int 1 :: rat) \<le> of_int \<bar>hpa\<bar>"
      by (simp only: of_int_le_iff)
    then have one: "(1::rat) \<le> \<bar>of_int hpa\<bar>"
      by simp
    then have "(1 / 2 ^ 10 :: rat) \<le> \<bar>?x\<bar>"
      by (simp add: abs_divide field_simps)
    with tiny_below_half have n: "2 powi (- 1022) \<le> \<bar>?x\<bar>"
      by (rule order_trans)
    have "?x \<noteq> 0"
      using False by simp
    from double_round_error [OF this n] show ?thesis .
  qed
  have close: "\<bar>double_round ?x - of_int hpa / (1333 / 1000)\<bar> < 1 / 2666"
  proof -
    have "\<bar>double_round ?x - of_int hpa / (1333 / 1000)\<bar>
          \<le> \<bar>double_round ?x - ?x\<bar> + \<bar>?x - of_int hpa / (1333 / 1000)\<bar>"
      by linarith
    also have "\<dots> \<le> \<bar>of_int hpa\<bar> / 2 ^ 53 + \<bar>of_int hpa\<bar> * (168 / 8002396638278733043)"
    proof -
      have "\<bar>?x\<bar> / 2 ^ 53 \<le> \<bar>of_int hpa\<bar> / 2 ^ 53"
        using xb by (intro divide_right_mono) simp_all
      with e lit show ?thesis
        by linarith
    qed
    also have "\<dots> \<le> 10 ^ 9 / 2 ^ 53 + 10 ^ 9 * (168 / 8002396638278733043)"
      using b by (intro add_mono divide_right_mono mult_right_mono) simp_all
    also have "\<dots> < (1 / 2666 :: rat)"
      by simp
    finally show ?thesis .
  qed
  have fin: "\<bar>double_round ?x\<bar> < 2 ^ 1024"
  proof -
    have "\<bar>double_round ?x\<bar> \<le> \<bar>double_round ?x - ?x\<bar> + \<bar>?x\<bar>"
      by linarith
    also have "\<dots> \<le> \<bar>of_int hpa\<bar> / 2 ^ 53 + \<bar>of_int hpa\<bar>"
    proof -
      have "\<bar>?x\<bar> / 2 ^ 53 \<le> \<bar>of_int hpa\<bar> / 2 ^ 53"
        using xb by (intro divide_right_mono) simp_all
      with e xb show ?thesis
        by linarith
    qed
    also have "\<dots> \<le> 10 ^ 9 / 2 ^ 53 + 10 ^ 9"
      using b by (intro add_mono divide_right_mono) simp_all
    also have "\<dots> < (2 ^ 1024 :: rat)"
      by simp
    finally show ?thesis .
  qed
  then have "float_of ?x = JFloat (double_round ?x)"
    by (auto simp add: float_of_def Let_def)
  then have t: "py_truediv_float (JInt hpa) (1333 / 1000) = Inr (JFloat (double_round ?x))"
    by (simp add: py_truediv_float_def py_num_def conv then_res_def double_1333)
  have "py_round (double_round ?x) = py_round (of_int hpa / (1333 / 1000))"
    using close by (rule pressure_rounding_stable)
  with t show ?thesis
    by blast
qed

subsection \<open>The guards of the handler\<close>

text \<open>
  C2. When the bot token is unset, or the weather key is unset, or the body decodes to a
  dict without the key \<open>message\<close>, the handler returns the fixed value
  \<open>{statusCode: 200, body: ''}\<close> and makes no call at all, so no reply is sent.
\<close>

theorem handler_guards_noop:
  assumes "TELEGRAM_BOT_TOKEN cfg = None \<or> OW_API_KEY cfg = None \<or>
           (event ''body'' = Some b \<and> json_loads lib b = Inr (JObj kvs) \<and>
            map_of kvs ''message'' = None)"
  shows "handler cfg lib rem event = (Inr \<lparr>statusCode = 200, body = []\<rparr>, []) \<and>
         sends (snd (handler cfg lib rem event)) = []"
proof -
  have "handler cfg lib rem event = (Inr FUNC_RESPONSE, [])"
  proof (cases "TELEGRAM_BOT_TOKEN cfg = None \<or> OW_API_KEY cfg = None")
    case True
    then show ?thesis
      by (auto simp add: handler_def ret_def)
  next
    case False
    with assms have b: "event ''body'' = Some b" and u: "json_loads lib b = Inr (JObj kvs)"
      and m: "map_of kvs ''message'' = None"
      by auto
    from False b u m show ?thesis
      by (simp add: handler_def bind_lift_Inr py_in_def ret_def)
  qed
  then show ?thesis
    by (simp add: FUNC_RESPONSE_def sends_def)
qed

theorem handler_guards_noop_witness:
  "handler (demo_config\<lparr>TELEGRAM_BOT_TOKEN := None\<rparr>) demo_lib demo_remote (event_of start_body) =
     (Inr \<lparr>statusCode = 200, body = []\<rparr>, [])
   \<and> handler (demo_config\<lparr>OW_API_KEY := None\<rparr>) demo_lib demo_remote (event_of start_body) =
     (Inr \<lparr>statusCode = 200, body = []\<rparr>, [])
   \<and> event_of no_message_body ''body'' = Some no_message_body
   \<and> json_loads demo_lib no_message_body = Inr (JObj [(''update_id'', JInt 1)])
   \<and> handler demo_config demo_lib demo_remote (event_of no_message_body) =
     (Inr \<lparr>statusCode = 200, body = []\<rparr>, [])"
proof -
  have t: "TELEGRAM_BOT_TOKEN (demo_config\<lparr>TELEGRAM_BOT_TOKEN := None\<rparr>) = None"
    by simp
  have w: "OW_API_KEY (demo_config\<lparr>OW_API_KEY := None\<rparr>) = None"
    by simp
  have b: "event_of no_message_body ''body'' = Some no_message_body"
    by (simp add: event_of_def)
  have u: "json_loads demo_lib no_message_body = Inr (JObj [(''update_id'', JInt 1)])"
    by code_simp
  have m: "map_of [(''update_id'', JInt 1)] ''message'' = None"
    by simp
  show ?thesis
    using handler_guards_noop [of "demo_config\<lparr>TELEGRAM_BOT_TOKEN := None\<rparr>" "event_of start_body"
                                 start_body demo_lib "[]" demo_remote]
          handler_guards_noop [of "demo_config\<lparr>OW_API_KEY := None\<rparr>" "event_of start_body"
                                 start_body demo_lib "[]" demo_remote]
          handler_guards_noop [of demo_config "event_of no_message_body" no_message_body demo_lib
                                 "[(''update_id'', JInt 1)]" demo_remote]
          t w b u m
    by simp
qed

text \<open>
  C3, as claimed: an event whose body is missing or is not JSON gives the empty success
  value. It does not: with both credentials set the lookup of line 36 raises
  \<open>KeyError\<close> for an event without a body, and \<open>json.loads\<close> raises for a body that is
  not JSON; nothing catches either.
\<close>

theorem handler_bad_body_raises:
  "handler demo_config demo_lib demo_remote event_without_body = (Inl KeyError, [])
   \<and> handler demo_config demo_lib demo_remote (event_of not_json_body) = (Inl JSONDecodeError, [])
   \<and> fst (handler demo_config demo_lib demo_remote event_without_body) \<noteq> Inr FUNC_RESPONSE
   \<and> fst (handler demo_config demo_lib demo_remote (event_of not_json_body)) \<noteq> Inr FUNC_RESPONSE"
proof -
  have a: "handler demo_config demo_lib demo_remote event_without_body = (Inl KeyError, [])"
    by (simp add: handler_def demo_config_def event_without_body_def bind_lift_Inl)
  have l: "json_loads demo_lib not_json_body = Inl JSONDecodeError"
    by code_simp
  have b: "handler demo_config demo_lib demo_remote (event_of not_json_body) = (Inl JSONDecodeError, [])"
    by (simp add: handler_def demo_config_def event_of_def l bind_lift_Inl)
  show ?thesis
    by (simp add: a b)
qed

text \<open>
  C3, amended. With the bot token and the weather key both set, an event without a body
  makes the handler raise \<open>KeyError\<close> and a body that \<open>json.loads\<close> rejects makes it
  raise the decoder's exception, in both cases before any call is made. Such an event
  gives the empty success value only when one of the two credentials is unset, because
  the body is not read then.
\<close>

theorem handler_body_errors_propagate:
  "(TELEGRAM_BOT_TOKEN cfg = None \<or> OW_API_KEY cfg = None \<longrightarrow>
      handler cfg lib rem event = (Inr FUNC_RESPONSE, []))
   \<and> (TELEGRAM_BOT_TOKEN cfg \<noteq> None \<and> OW_API_KEY cfg \<noteq> None \<and> event ''body'' = None \<longrightarrow>
      handler cfg lib rem event = (Inl KeyError, []))
   \<and> (TELEGRAM_BOT_TOKEN cfg \<noteq> None \<and> OW_API_KEY cfg \<noteq> None \<and> event ''body'' = Some b \<and>
       json_loads lib b = Inl e \<longrightarrow>
      handler cfg lib rem event = (Inl e, []))"
  by (auto simp add: handler_def ret_def bind_lift_Inl)

theorem handler_body_errors_propagate_witness:
  "handler (demo_config\<lparr>OW_API_KEY := None\<rparr>) demo_lib demo_remote event_without_body =
     (Inr FUNC_RESPONSE, [])
   \<and> handler demo_config demo_lib demo_remote event_without_body = (Inl KeyError, [])
   \<and> json_loads demo_lib not_json_body = Inl JSONDecodeError
   \<and> handler demo_config demo_lib demo_remote (event_of not_json_body) = (Inl JSONDecodeError, [])"
proof -
  have c: "TELEGRAM_BOT_TOKEN demo_config \<noteq> None" "OW_API_KEY demo_config \<noteq> None"
    by (simp_all add: demo_config_def)
  have w: "OW_API_KEY (demo_config\<lparr>OW_API_KEY := None\<rparr>) = None"
    by simp
  have n: "event_without_body ''body'' = None"
    by (simp add: event_without_body_def)
  have b: "event_of not_json_body ''body'' = Some not_json_body"
    by (simp add: event_of_def)
  have l: "json_loads demo_lib not_json_body = Inl JSONDecodeError"
    by code_simp
  show ?thesis
    using handler_body_errors_propagate [of "demo_config\<lparr>OW_API_KEY := None\<rparr>" demo_lib
                                           demo_remote event_without_body]
          handler_body_errors_propagate [of demo_config demo_lib demo_remote event_without_body]
          handler_body_errors_propagate [of demo_config demo_lib demo_remote
                                           "event_of not_json_body" not_json_body JSONDecodeError]
          c w n b l
    by simp
qed

subsection \<open>The coordinate resolver\<close>

lemma get_coords_unanswered:
  "clean_address rem address = Inl e \<Longrightarrow>
   get_coords_from_address rem address = (Inl e, [CleanAddress address])"
  by (simp add: get_coords_from_address_def bind_http_failed)

lemma get_coords_refused:
  "clean_address rem address = Inr r \<Longrightarrow> \<not> ok r \<Longrightarrow>
   get_coords_from_address rem address = (Inr (JNull, JNull), [CleanAddress address])"
  by (simp add: get_coords_from_address_def bind_http lift_def)

lemma get_coords_first_candidate:
  assumes "clean_address rem address = Inr r" and "ok r"
    and "payload r = Some (JArr (JObj c # others))"
    and "map_of c ''qc'' = Some qc"
  shows "get_coords_from_address rem address =
           ((if py_eq_int qc 0 then
               then_res (py_getitem (JObj c) ''geo_lat'') (\<lambda>geo_lat.
               then_res (py_getitem (JObj c) ''geo_lon'') (\<lambda>geo_lon. Inr (geo_lat, geo_lon)))
             else Inr (JNull, JNull)),
            [CleanAddress address])"
  using assms
  by (simp add: get_coords_from_address_def bind_http lift_def response_json_def then_res_def
        py_first_def py_getitem_def)

lemma get_coords_no_candidate:
  assumes "clean_address rem address = Inr r" and "ok r" and "payload r = Some (JArr [])"
  shows "get_coords_from_address rem address = (Inl IndexError, [CleanAddress address])"
  using assms
  by (simp add: get_coords_from_address_def bind_http lift_def response_json_def then_res_def
        py_first_def)

lemma get_coords_found_only_if:
  assumes r: "fst (get_coords_from_address rem address) = Inr (lat, lon)"
    and nn: "(lat, lon) \<noteq> (JNull, JNull)"
  shows "\<exists>r. clean_address rem address = Inr r \<and> ok r \<and>
         (\<exists>c others qc. payload r = Some (JArr (JObj c # others)) \<and>
            map_of c ''qc'' = Some qc \<and> py_eq_int qc 0 \<and>
            map_of c ''geo_lat'' = Some lat \<and> map_of c ''geo_lon'' = Some lon)"
proof -
  obtain a where a: "clean_address rem address = Inr a"
  proof (cases "clean_address rem address")
    case (Inl e)
    from get_coords_unanswered [OF this] r show ?thesis
      by simp
  next
    case (Inr a)
    then show ?thesis
      by (rule that)
  qed
  have k: "ok a"
  proof (rule ccontr)
    assume "\<not> ok a"
    from get_coords_refused [OF a this] r nn show False
      by simp
  qed
  from r a k have e: "then_res (then_res (response_json a) py_first) (\<lambda>result.
             then_res (py_getitem result ''qc'') (\<lambda>qc.
               if py_eq_int qc 0 then
                 then_res (py_getitem result ''geo_lat'') (\<lambda>geo_lat.
                 then_res (py_getitem result ''geo_lon'') (\<lambda>geo_lon.
                   Inr (geo_lat, geo_lon)))
               else Inr (JNull, JNull))) = Inr (lat, lon)"
    by (simp add: get_coords_from_address_def bind_http lift_def)
  then obtain j where j: "payload a = Some j"
    by (cases "payload a") (simp_all add: response_json_def then_res_def)
  from e j obtain result where f: "py_first j = Inr result"
    by (cases "py_first j") (simp_all add: response_json_def then_res_def)
  from e j f obtain qc where q: "py_getitem result ''qc'' = Inr qc"
    by (cases "py_getitem result ''qc''") (simp_all add: response_json_def then_res_def)
  from q obtain c where c: "result = JObj c" and cq: "map_of c ''qc'' = Some qc"
    by (cases result) (auto simp add: py_getitem_def split: option.splits)
  from f c obtain others where o: "j = JArr (JObj c # others)"
    by (cases j) (auto simp add: py_first_def split: list.splits)
  from e j f q nn have z: "py_eq_int qc 0"
    by (cases "py_eq_int qc 0") (simp_all add: response_json_def then_res_def)
  from e j f q z c have "map_of c ''geo_lat'' = Some lat \<and> map_of c ''geo_lon'' = Some lon"
    by (auto simp add: response_json_def then_res_def py_getitem_def split: option.splits)
  with a k j o cq z show ?thesis
    by blast
qed

text \<open>
  C4, as claimed: any failed HTTP call yields \<open>(None, None)\<close>, and otherwise the pair is
  returned exactly when the first candidate's code is 0. A call that fails in transport
  raises out of the resolver instead, since nothing catches what \<^verbatim>\<open>requests.post\<close> raises;
  and an \<open>ok\<close> answer with an empty list of candidates raises \<open>IndexError\<close> at line 88.
\<close>

theorem get_coords_raises_without_answer:
  "get_coords_from_address offline_remote (JStr ''Moscow'') =
     (Inl ConnectionError, [CleanAddress (JStr ''Moscow'')])
   \<and> fst (get_coords_from_address offline_remote (JStr ''Moscow'')) \<noteq> Inr (JNull, JNull)
   \<and> get_coords_from_address demo_remote (JStr ''Void'') =
     (Inl IndexError, [CleanAddress (JStr ''Void'')])
   \<and> fst (get_coords_from_address demo_remote (JStr ''Void'')) \<noteq> Inr (JNull, JNull)"
proof -
  have a: "get_coords_from_address offline_remote (JStr ''Moscow'') =
     (Inl ConnectionError, [CleanAddress (JStr ''Moscow'')])"
    by (rule get_coords_unanswered) (simp add: offline_remote_def no_answer_def)
  have b: "get_coords_from_address demo_remote (JStr ''Void'') =
     (Inl IndexError, [CleanAddress (JStr ''Void'')])"
    by (rule get_coords_no_candidate [where r = "answer (JArr [])"])
       (simp_all add: demo_remote_def demo_clean_address_def answer_def)
  show ?thesis
    by (simp add: a b)
qed

text \<open>
  C4, amended. When the provider answers: an answer that is not \<open>ok\<close> gives
  \<open>(None, None)\<close> whatever its body, an \<open>ok\<close> answer whose first candidate has a \<open>qc\<close>
  other than 0 gives \<open>(None, None)\<close>, one whose first candidate has \<open>qc\<close> equal to 0
  gives that candidate's \<open>(geo_lat, geo_lon)\<close>, and a result other than \<open>(None, None)\<close>
  can only come from the last case; an integer code equals 0 only if it is 0. When the
  request fails in transport the resolver raises what the request raised, and when an
  \<open>ok\<close> answer holds no candidate it raises \<open>IndexError\<close>; in both cases it returns no
  pair at all.
\<close>

theorem get_coords_from_address_quality:
  "(clean_address rem address = Inr r \<and> \<not> ok r \<longrightarrow>
      get_coords_from_address rem address = (Inr (JNull, JNull), [CleanAddress address]))
   \<and> (clean_address rem address = Inr r \<and> ok r \<and>
       payload r = Some (JArr (JObj c # others)) \<and>
       map_of c ''qc'' = Some qc \<and> \<not> py_eq_int qc 0 \<longrightarrow>
      get_coords_from_address rem address = (Inr (JNull, JNull), [CleanAddress address]))
   \<and> (clean_address rem address = Inr r \<and> ok r \<and>
       payload r = Some (JArr (JObj c # others)) \<and>
       map_of c ''qc'' = Some qc \<and> py_eq_int qc 0 \<and>
       map_of c ''geo_lat'' = Some geo_lat \<and> map_of c ''geo_lon'' = Some geo_lon \<longrightarrow>
      get_coords_from_address rem address = (Inr (geo_lat, geo_lon), [CleanAddress address]))
   \<and> (fst (get_coords_from_address rem address) = Inr (lat, lon) \<and> (lat, lon) \<noteq> (JNull, JNull) \<longrightarrow>
      (\<exists>r'. clean_address rem address = Inr r' \<and> ok r' \<and>
        (\<exists>c' others' qc'. payload r' = Some (JArr (JObj c' # others')) \<and>
           map_of c' ''qc'' = Some qc' \<and> py_eq_int qc' 0 \<and>
           map_of c' ''geo_lat'' = Some lat \<and> map_of c' ''geo_lon'' = Some lon)))
   \<and> (py_eq_int (JInt n) 0 \<longleftrightarrow> n = 0)
   \<and> (clean_address rem address = Inl e \<longrightarrow>
      get_coords_from_address rem address = (Inl e, [CleanAddress address]))
   \<and> (clean_address rem address = Inr r \<and> ok r \<and> payload r = Some (JArr []) \<longrightarrow>
      get_coords_from_address rem address = (Inl IndexError, [CleanAddress address]))"
proof (intro conjI impI)
  assume "clean_address rem address = Inr r \<and> \<not> ok r"
  then show "get_coords_from_address rem address = (Inr (JNull, JNull), [CleanAddress address])"
    by (simp add: get_coords_refused)
next
  assume "clean_address rem address = Inr r \<and> ok r \<and>
       payload r = Some (JArr (JObj c # others)) \<and>
       map_of c ''qc'' = Some qc \<and> \<not> py_eq_int qc 0"
  then show "get_coords_from_address rem address = (Inr (JNull, JNull), [CleanAddress address])"
    by (simp add: get_coords_first_candidate)
next
  assume "clean_address rem address = Inr r \<and> ok r \<and>
       payload r = Some (JArr (JObj c # others)) \<and>
       map_of c ''qc'' = Some qc \<and> py_eq_int qc 0 \<and>
       map_of c ''geo_lat'' = Some geo_lat \<and> map_of c ''geo_lon'' = Some geo_lon"
  then show "get_coords_from_address rem address = (Inr (geo_lat, geo_lon), [CleanAddress address])"
    by (simp add: get_coords_first_candidate py_getitem_def then_res_def)
next
  assume "fst (get_coords_from_address rem address) = Inr (lat, lon) \<and> (lat, lon) \<noteq> (JNull, JNull)"
  then show "\<exists>r'. clean_address rem address = Inr r' \<and> ok r' \<and>
        (\<exists>c' others' qc'. payload r' = Some (JArr (JObj c' # others')) \<and>
           map_of c' ''qc'' = Some qc' \<and> py_eq_int qc' 0 \<and>
           map_of c' ''geo_lat'' = Some lat \<and> map_of c' ''geo_lon'' = Some lon)"
    using get_coords_found_only_if [of rem address lat lon] by blast
next
  show "py_eq_int (JInt n) 0 = (n = 0)"
    by (simp add: py_eq_int_def py_num_def)
next
  assume "clean_address rem address = Inl e"
  then show "get_coords_from_address rem address = (Inl e, [CleanAddress address])"
    by (rule get_coords_unanswered)
next
  assume "clean_address rem address = Inr r \<and> ok r \<and> payload r = Some (JArr [])"
  then show "get_coords_from_address rem address = (Inl IndexError, [CleanAddress address])"
    by (simp add: get_coords_no_candidate)
qed

theorem get_coords_from_address_quality_witness:
  "clean_address demo_remote (JStr ''Atlantis'') = Inr (refusal (JObj [(''message'', JStr ''Forbidden'')]))
   \<and> get_coords_from_address demo_remote (JStr ''Atlantis'') =
       (Inr (JNull, JNull), [CleanAddress (JStr ''Atlantis'')])
   \<and> \<not> py_eq_int (JInt 1) 0
   \<and> get_coords_from_address demo_remote (JStr ''Springfield'') =
       (Inr (JNull, JNull), [CleanAddress (JStr ''Springfield'')])
   \<and> py_eq_int (JInt 0) 0
   \<and> get_coords_from_address demo_remote (JStr ''Moscow'') =
       (Inr (JStr ''55.75'', JStr ''37.61''), [CleanAddress (JStr ''Moscow'')])
   \<and> clean_address offline_remote (JStr ''Moscow'') = Inl ConnectionError
   \<and> get_coords_from_address offline_remote (JStr ''Moscow'') =
       (Inl ConnectionError, [CleanAddress (JStr ''Moscow'')])
   \<and> get_coords_from_address demo_remote (JStr ''Void'') =
       (Inl IndexError, [CleanAddress (JStr ''Void'')])"
proof -
  let ?no = "refusal (JObj [(''message'', JStr ''Forbidden'')])"
  let ?s = "[(''qc'', JInt 1), (''geo_lat'', JStr ''39.8''), (''geo_lon'', JStr ''-89.6'')]"
  let ?m = "[(''qc'', JInt 0), (''geo_lat'', JStr ''55.75''), (''geo_lon'', JStr ''37.61'')]"
  have a: "clean_address demo_remote (JStr ''Atlantis'') = Inr ?no"
    by (simp add: demo_remote_def demo_clean_address_def)
  have a': "clean_address demo_remote (JStr ''Atlantis'') = Inr ?no \<and> \<not> ok ?no"
    using a by (simp add: refusal_def)
  have q: "\<not> py_eq_int (JInt 1) 0" "py_eq_int (JInt 0) 0"
    by (simp_all add: py_eq_int_def py_num_def)
  have s: "clean_address demo_remote (JStr ''Springfield'') = Inr (answer (JArr [JObj ?s])) \<and>
       ok (answer (JArr [JObj ?s])) \<and>
       payload (answer (JArr [JObj ?s])) = Some (JArr (JObj ?s # [])) \<and>
       map_of ?s ''qc'' = Some (JInt 1) \<and> \<not> py_eq_int (JInt 1) 0"
    using q by (simp add: demo_remote_def demo_clean_address_def answer_def candidate_def)
  have m: "clean_address demo_remote (JStr ''Moscow'') = Inr (answer (JArr [JObj ?m])) \<and>
       ok (answer (JArr [JObj ?m])) \<and>
       payload (answer (JArr [JObj ?m])) = Some (JArr (JObj ?m # [])) \<and>
       map_of ?m ''qc'' = Some (JInt 0) \<and> py_eq_int (JInt 0) 0 \<and>
       map_of ?m ''geo_lat'' = Some (JStr ''55.75'') \<and> map_of ?m ''geo_lon'' = Some (JStr ''37.61'')"
    using q by (simp add: demo_remote_def demo_clean_address_def answer_def candidate_def)
  have f: "clean_address offline_remote (JStr ''Moscow'') = Inl ConnectionError"
    by (simp add: offline_remote_def no_answer_def)
  have v: "clean_address demo_remote (JStr ''Void'') = Inr (answer (JArr [])) \<and>
       ok (answer (JArr [])) \<and> payload (answer (JArr [])) = Some (JArr [])"
    by (simp add: demo_remote_def demo_clean_address_def answer_def)
  have r1: "get_coords_from_address demo_remote (JStr ''Atlantis'') =
       (Inr (JNull, JNull), [CleanAddress (JStr ''Atlantis'')])"
    by (rule get_coords_from_address_quality [THEN conjunct1, THEN mp, OF a'])
  have r2: "get_coords_from_address demo_remote (JStr ''Springfield'') =
       (Inr (JNull, JNull), [CleanAddress (JStr ''Springfield'')])"
    by (rule get_coords_from_address_quality [THEN conjunct2, THEN conjunct1, THEN mp, OF s])
  have r3: "get_coords_from_address demo_remote (JStr ''Moscow'') =
       (Inr (JStr ''55.75'', JStr ''37.61''), [CleanAddress (JStr ''Moscow'')])"
    by (rule get_coords_from_address_quality [THEN conjunct2, THEN conjunct2, THEN conjunct1, THEN mp, OF m])
  have r4: "get_coords_from_address offline_remote (JStr ''Moscow'') =
       (Inl ConnectionError, [CleanAddress (JStr ''Moscow'')])"
    by (rule get_coords_from_address_quality [THEN conjunct2, THEN conjunct2, THEN conjunct2,
          THEN conjunct2, THEN conjunct2, THEN conjunct1, THEN mp, OF f])
  have r5: "get_coords_from_address demo_remote (JStr ''Void'') =
       (Inl IndexError, [CleanAddress (JStr ''Void'')])"
    by (rule get_coords_from_address_quality [THEN conjunct2, THEN conjunct2, THEN conjunct2,
          THEN conjunct2, THEN conjunct2, THEN conjunct2, THEN mp, OF v])
  from a q r1 r2 r3 f r4 r5 show ?thesis
    by (intro conjI)
qed

text \<open>
  C10. \<open>get_echo_text\<close> tests the two coordinates for truth, not for being \<open>None\<close>: when
  the resolver returns a pair whose latitude or longitude is falsy, such as the number 0
  or the empty string, the reply is the "place not found" text quoting the address and
  the weather provider is not called.
\<close>

theorem get_echo_text_falsy_coordinates:
  "(fst (get_coords_from_address rem address) = Inr (lat, lon) \<and>
    (\<not> py_truthy lat \<or> \<not> py_truthy lon) \<longrightarrow>
      get_echo_text lib rem address =
        (Inr (not_found_prefix @ py_str lib address @ not_found_suffix), [CleanAddress address]))
   \<and> \<not> py_truthy (JInt 0) \<and> \<not> py_truthy (JFloat 0) \<and> \<not> py_truthy (JStr [])
   \<and> JInt 0 \<noteq> JNull \<and> JFloat 0 \<noteq> JNull \<and> JStr [] \<noteq> JNull"
proof (intro conjI impI)
  assume a: "fst (get_coords_from_address rem address) = Inr (lat, lon) \<and>
    (\<not> py_truthy lat \<or> \<not> py_truthy lon)"
  have "get_coords_from_address rem address = (Inr (lat, lon), [CleanAddress address])"
    using a calls_get_coords [of rem address]
    by (cases "get_coords_from_address rem address") simp
  with a show "get_echo_text lib rem address =
        (Inr (not_found_prefix @ py_str lib address @ not_found_suffix), [CleanAddress address])"
    by (auto simp add: get_echo_text_def bind_io_alt ret_def not_found_text_def)
qed (simp_all add: py_truthy_def)

theorem get_echo_text_falsy_coordinates_witness:
  "fst (get_coords_from_address demo_remote (JStr ''Gulf of Guinea'')) = Inr (JInt 0, JInt 0)
   \<and> \<not> py_truthy (JInt 0)
   \<and> get_echo_text demo_lib demo_remote (JStr ''Gulf of Guinea'') =
       (Inr (not_found_prefix @ ''Gulf of Guinea'' @ not_found_suffix),
        [CleanAddress (JStr ''Gulf of Guinea'')])
   \<and> fst (get_coords_from_address demo_remote (JStr ''Nowhere'')) = Inr (JStr [], JStr [])
   \<and> get_echo_text demo_lib demo_remote (JStr ''Nowhere'') =
       (Inr (not_found_prefix @ ''Nowhere'' @ not_found_suffix), [CleanAddress (JStr ''Nowhere'')])"
proof -
  have g: "fst (get_coords_from_address demo_remote (JStr ''Gulf of Guinea'')) = Inr (JInt 0, JInt 0)"
    by code_simp
  have n: "fst (get_coords_from_address demo_remote (JStr ''Nowhere'')) = Inr (JStr [], JStr [])"
    by code_simp
  have t: "\<not> py_truthy (JInt 0)" "\<not> py_truthy (JStr [])"
    by (simp_all add: py_truthy_def)
  show ?thesis
    using get_echo_text_falsy_coordinates [of demo_remote "JStr ''Gulf of Guinea''" "JInt 0" "JInt 0" demo_lib]
          get_echo_text_falsy_coordinates [of demo_remote "JStr ''Nowhere''" "JStr []" "JStr []" demo_lib]
          g n t
    by (simp add: py_str_def)
qed

subsection \<open>Wind direction\<close>

lemma py_index_in_range:
  "0 \<le> i \<Longrightarrow> i < int (length xs) \<Longrightarrow> py_index xs i = Inr (xs ! nat i)"
  by (simp add: py_index_def)

lemma get_wind_direction_of_quotient:
  assumes "py_truediv_int degrees 45 = Inr (JFloat y)"
  shows "get_wind_direction degrees =
           Inr ([dir_N, dir_NE, dir_E, dir_SE, dir_S, dir_SW, dir_W, dir_NW]
                  ! nat (py_round y mod 8))"
proof -
  have len: "int (length directions) = 8"
    by (simp add: directions_def)
  have "py_index directions (py_round y mod 8) = Inr (directions ! nat (py_round y mod 8))"
    by (rule py_index_in_range) (simp_all add: len)
  with assms show ?thesis
    by (simp add: get_wind_direction_def then_res_def py_round_value_def directions_def)
qed

text \<open>
  C5. \<open>get_wind_direction\<close> returns the entry of the list north, north-east, east,
  south-east, south, south-west, west, north-west at index \<open>round(degrees / 45) mod 8\<close>,
  and never fails on the index: for every bearing whose quotient by 45 is a finite float
  \<open>y\<close> the index is \<open>round(y) mod 8\<close>, and for an integer bearing below \<open>2 ^ 52\<close> in
  magnitude, where the float quotient rounds as the exact one does, it is the round of
  the exact quotient; 0 degrees gives north, 40 degrees north-east and 360 degrees north.
\<close>

theorem get_wind_direction_compass:
  "(py_truediv_int degrees 45 = Inr (JFloat y) \<longrightarrow>
      get_wind_direction degrees =
        Inr ([dir_N, dir_NE, dir_E, dir_SE, dir_S, dir_SW, dir_W, dir_NW]
               ! nat (py_round y mod 8)))
   \<and> (\<bar>d\<bar> < 2 ^ 52 \<longrightarrow>
      get_wind_direction (JInt d) =
        Inr ([dir_N, dir_NE, dir_E, dir_SE, dir_S, dir_SW, dir_W, dir_NW]
               ! nat (py_round (of_int d / 45) mod 8)))
   \<and> get_wind_direction (JInt 0) = Inr dir_N
   \<and> get_wind_direction (JInt 40) = Inr dir_NE
   \<and> get_wind_direction (JInt 360) = Inr dir_N"
proof (intro conjI impI)
  assume "py_truediv_int degrees 45 = Inr (JFloat y)"
  then show "get_wind_direction degrees =
        Inr ([dir_N, dir_NE, dir_E, dir_SE, dir_S, dir_SW, dir_W, dir_NW]
               ! nat (py_round y mod 8))"
    by (rule get_wind_direction_of_quotient)
next
  assume "\<bar>d\<bar> < 2 ^ 52"
  from bearing_quotient [OF this] obtain z
    where z: "py_truediv_int (JInt d) 45 = Inr (JFloat z)"
      and r: "py_round z = py_round (of_int d / 45)"
    by blast
  from get_wind_direction_of_quotient [OF z] r
  show "get_wind_direction (JInt d) =
        Inr ([dir_N, dir_NE, dir_E, dir_SE, dir_S, dir_SW, dir_W, dir_NW]
               ! nat (py_round (of_int d / 45) mod 8))"
    by simp
next
  show "get_wind_direction (JInt 0) = Inr dir_N"
    by code_simp
next
  show "get_wind_direction (JInt 40) = Inr dir_NE"
    by code_simp
next
  show "get_wind_direction (JInt 360) = Inr dir_N"
    by code_simp
qed

text \<open>A bearing of 112.5 degrees is a tie between index 2 and 3; it goes to the even
  one, east. The bearing 135 is an integer, and 3 is the round of its exact quotient.\<close>

theorem get_wind_direction_compass_witness:
  "py_truediv_int (JFloat (225 / 2)) 45 = Inr (JFloat (5 / 2))
   \<and> get_wind_direction (JFloat (225 / 2)) = Inr dir_E
   \<and> \<bar>135 :: int\<bar> < 2 ^ 52
   \<and> get_wind_direction (JInt 135) = Inr dir_SE"
proof -
  have h: "py_truediv_int (JFloat (225 / 2)) 45 = Inr (JFloat (5 / 2))"
    by code_simp
  have r: "nat (py_round (5 / 2) mod 8) = 2"
    by code_simp
  from get_wind_direction_compass [THEN conjunct1, THEN mp, OF h]
  have a: "get_wind_direction (JFloat (225 / 2)) = Inr dir_E"
    by (simp only: r) simp
  have s: "\<bar>135 :: int\<bar> < 2 ^ 52"
    by simp
  have t: "nat (py_round (of_int 135 / 45) mod 8) = 3"
    by code_simp
  from get_wind_direction_compass [THEN conjunct2, THEN conjunct1, THEN mp, OF s]
  have b: "get_wind_direction (JInt 135) = Inr dir_SE"
    by (simp only: t) simp
  from h a s b show ?thesis
    by (intro conjI)
qed

subsection \<open>The weather report\<close>

lemma then_res_Inr_iff: "then_res r g = Inr y \<longleftrightarrow> (\<exists>x. r = Inr x \<and> g x = Inr y)"
  by (cases r) (simp_all add: then_res_def)

lemma then_res_Inr: "then_res (Inr x) g = g x"
  by (simp add: then_res_def)

lemma demo_read_weather: "read_weather demo_lib (JObj full_weather) = Inr demo_fields"
  by code_simp

lemma get_weather_info_Inr:
  assumes "fst (get_weather_info lib rem lat lon) = Inr text"
    and "current_weather rem lat lon = Inr resp" and "payload resp = Some info"
  shows "\<exists>f. read_weather lib info = Inr f \<and> text = echo_text_of lib f"
  using assms
  by (auto simp add: get_weather_info_def bind_http lift_def response_json_def then_res_Inr_iff)

lemma get_weather_info_Inl:
  assumes "current_weather rem lat lon = Inr resp" and "payload resp = Some info"
    and "read_weather lib info = Inl e"
  shows "get_weather_info lib rem lat lon = (Inl e, [CurrentWeather lat lon])"
  using assms
  by (simp add: get_weather_info_def bind_http lift_def response_json_def then_res_def)

lemma py_truediv_float_result:
  assumes "py_truediv_float v d = Inr q"
  shows "(\<exists>y. q = JFloat y) \<or> (\<exists>n. q = JNonFinite n)"
proof (cases v)
  case (JInt i)
  with assms show ?thesis
    by (cases "to_double (of_int i)")
       (auto simp add: py_truediv_float_def py_num_def then_res_def float_of_def Let_def
          split: if_splits)
next
  case (JBool b)
  with assms show ?thesis
    by (cases "to_double (if b then 1 else 0)")
       (auto simp add: py_truediv_float_def py_num_def then_res_def float_of_def Let_def
          split: if_splits)
qed (use assms in \<open>auto simp add: py_truediv_float_def py_num_def float_of_def Let_def
       split: if_splits\<close>)

lemma read_weather_pressure:
  assumes "read_weather lib info = Inr f"
    and "py_getitem2 info ''main'' ''pressure'' = Inr p"
  shows "\<exists>y. py_truediv_float p (1333 / 1000) = Inr (JFloat y) \<and> pressure f = py_round y"
proof -
  from assms obtain q where q: "py_truediv_float p (1333 / 1000) = Inr q"
    and r: "py_round_value q = Inr (pressure f)"
    by (auto simp add: read_weather_def then_res_Inr_iff)
  from py_truediv_float_result [OF q] r obtain y where "q = JFloat y"
    by (auto simp add: py_round_value_def)
  with q r show ?thesis
    by (simp add: py_round_value_def)
qed



lemma echo_text_shows_pressure:
  "\<exists>before after. echo_text_of lib f = before @ lit_pressure @ str_int (pressure f) @ lit_humidity @ after"
proof (intro exI)
  show "echo_text_of lib f =
          (py_str lib (weather_description f) @ lit_temperature @ str_int (temperature f) @
           lit_feels_like @ str_int (feels_like f)) @
          lit_pressure @ str_int (pressure f) @ lit_humidity @
          (str_int (humidity f) @ lit_visibility @ py_str lib (visibility f) @
           lit_wind @ py_str lib (wind_speed f) @ lit_wind_unit @ wind_direction f @
           lit_sunrise @ sunrise f @ lit_sunset @ sunset f @ lit_end)"
    by (simp add: echo_text_of_def)
qed

lemma echo_text_shows_visibility:
  "\<exists>before after. echo_text_of lib f = before @ lit_visibility @ py_str lib (visibility f) @ lit_wind @ after"
proof (intro exI)
  show "echo_text_of lib f =
          (py_str lib (weather_description f) @ lit_temperature @ str_int (temperature f) @
           lit_feels_like @ str_int (feels_like f) @ lit_pressure @ str_int (pressure f) @
           lit_humidity @ str_int (humidity f)) @
          lit_visibility @ py_str lib (visibility f) @ lit_wind @
          (py_str lib (wind_speed f) @ lit_wind_unit @ wind_direction f @
           lit_sunrise @ sunrise f @ lit_sunset @ sunset f @ lit_end)"
    by (simp add: echo_text_of_def)
qed

text \<open>
  C6. Whenever the formatter produces a report from an answer whose \<open>main.pressure\<close> is
  \<open>p\<close>, the float quotient of \<open>p\<close> by 1.333 is finite, the pressure field of the report
  is the round of it, and the text shows that integer, in decimal, between the words for
  the pressure and for the humidity. For an integer number of hPa up to \<open>10 ^ 9\<close> in
  magnitude the float quotient rounds as the exact one does, so the report shows the
  round of \<open>hPa / 1.333\<close>; 1013 hPa gives 760.
\<close>

theorem report_pressure_mmHg:
  "(current_weather rem lat lon = Inr resp \<and> payload resp = Some info \<and>
    py_getitem2 info ''main'' ''pressure'' = Inr p \<and>
    fst (get_weather_info lib rem lat lon) = Inr text \<longrightarrow>
      (\<exists>f y. read_weather lib info = Inr f \<and> text = echo_text_of lib f \<and>
           py_truediv_float p (1333 / 1000) = Inr (JFloat y) \<and> pressure f = py_round y \<and>
           (\<exists>before after.
              text = before @ lit_pressure @ str_int (py_round y) @ lit_humidity @ after)))
   \<and> (current_weather rem lat lon = Inr resp \<and> payload resp = Some info \<and>
       py_getitem2 info ''main'' ''pressure'' = Inr (JInt hpa) \<and> \<bar>hpa\<bar> \<le> 10 ^ 9 \<and>
       fst (get_weather_info lib rem lat lon) = Inr text \<longrightarrow>
      (\<exists>f. read_weather lib info = Inr f \<and> text = echo_text_of lib f \<and>
           pressure f = py_round (of_int hpa / (1333 / 1000))) \<and>
      (\<exists>before after.
         text = before @ lit_pressure @ str_int (py_round (of_int hpa / (1333 / 1000))) @
                lit_humidity @ after))
   \<and> py_truediv_float (JInt 1013) (1333 / 1000) = Inr (JFloat (6684502799322359 / 8796093022208))
   \<and> py_round (6684502799322359 / 8796093022208) = 760
   \<and> py_round (1013 / (1333 / 1000)) = 760 \<and> str_int 760 = ''760''"
proof (intro conjI impI)
  assume a: "current_weather rem lat lon = Inr resp \<and> payload resp = Some info \<and>
    py_getitem2 info ''main'' ''pressure'' = Inr p \<and>
    fst (get_weather_info lib rem lat lon) = Inr text"
  then obtain f where f: "read_weather lib info = Inr f" and t: "text = echo_text_of lib f"
    using get_weather_info_Inr [of lib rem lat lon "text" resp info] by blast
  from f a obtain y where y: "py_truediv_float p (1333 / 1000) = Inr (JFloat y)"
    and p: "pressure f = py_round y"
    using read_weather_pressure [of lib info f p] by blast
  from echo_text_shows_pressure [of lib f] t p
  have "\<exists>before after. text = before @ lit_pressure @ str_int (py_round y) @ lit_humidity @ after"
    by simp
  with f t y p show "\<exists>f y. read_weather lib info = Inr f \<and> text = echo_text_of lib f \<and>
           py_truediv_float p (1333 / 1000) = Inr (JFloat y) \<and> pressure f = py_round y \<and>
           (\<exists>before after.
              text = before @ lit_pressure @ str_int (py_round y) @ lit_humidity @ after)"
    by blast
next
  assume a: "current_weather rem lat lon = Inr resp \<and> payload resp = Some info \<and>
       py_getitem2 info ''main'' ''pressure'' = Inr (JInt hpa) \<and> \<bar>hpa\<bar> \<le> 10 ^ 9 \<and>
       fst (get_weather_info lib rem lat lon) = Inr text"
  then obtain f where f: "read_weather lib info = Inr f" and t: "text = echo_text_of lib f"
    using get_weather_info_Inr [of lib rem lat lon "text" resp info] by blast
  from f a obtain y where y: "py_truediv_float (JInt hpa) (1333 / 1000) = Inr (JFloat y)"
    and p: "pressure f = py_round y"
    using read_weather_pressure [of lib info f "JInt hpa"] by blast
  from a have "\<bar>hpa\<bar> \<le> 10 ^ 9"
    by blast
  from pressure_quotient [OF this] y have "py_round y = py_round (of_int hpa / (1333 / 1000))"
    by auto
  with p have e: "pressure f = py_round (of_int hpa / (1333 / 1000))"
    by simp
  from f t e show "\<exists>f. read_weather lib info = Inr f \<and> text = echo_text_of lib f \<and>
           pressure f = py_round (of_int hpa / (1333 / 1000))"
    by blast
  from echo_text_shows_pressure [of lib f] t e
  show "\<exists>before after.
         text = before @ lit_pressure @ str_int (py_round (of_int hpa / (1333 / 1000))) @
                lit_humidity @ after"
    by simp
next
  show "py_truediv_float (JInt 1013) (1333 / 1000) = Inr (JFloat (6684502799322359 / 8796093022208))"
    by code_simp
next
  show "py_round (6684502799322359 / 8796093022208) = 760"
    by code_simp
next
  show "py_round (1013 / (1333 / 1000)) = 760"
    by code_simp
next
  show "str_int 760 = ''760''"
    by code_simp
qed

text \<open>The answer for Moscow reports 1013 hPa. A reading whose double is
  8905283322939179 / 8796093022208, the one nearest to 1012.4135, divides to the float
  759.5 exactly, a tie that goes to 760.\<close>

theorem report_pressure_mmHg_witness:
  "current_weather demo_remote (JStr ''55.75'') (JStr ''37.61'') = Inr (answer (JObj full_weather))
   \<and> payload (answer (JObj full_weather)) = Some (JObj full_weather)
   \<and> py_getitem2 (JObj full_weather) ''main'' ''pressure'' = Inr (JInt 1013)
   \<and> \<bar>1013 :: int\<bar> \<le> 10 ^ 9
   \<and> fst (get_weather_info demo_lib demo_remote (JStr ''55.75'') (JStr ''37.61'')) =
       Inr (echo_text_of demo_lib demo_fields)
   \<and> read_weather demo_lib (JObj full_weather) = Inr demo_fields
   \<and> pressure demo_fields = py_round (of_int 1013 / (1333 / 1000))
   \<and> pressure demo_fields = 760
   \<and> py_truediv_float (JFloat (8905283322939179 / 8796093022208)) (1333 / 1000) = Inr (JFloat (1519 / 2))
   \<and> py_round (1519 / 2) = 760"
proof -
  have a: "current_weather demo_remote (JStr ''55.75'') (JStr ''37.61'') = Inr (answer (JObj full_weather))"
    by (simp add: demo_remote_def demo_current_weather_def)
  have a': "payload (answer (JObj full_weather)) = Some (JObj full_weather)"
    by (simp add: answer_def)
  have b: "py_getitem2 (JObj full_weather) ''main'' ''pressure'' = Inr (JInt 1013)"
    by code_simp
  have c: "\<bar>1013 :: int\<bar> \<le> 10 ^ 9"
    by simp
  note r = demo_read_weather
  have d: "fst (get_weather_info demo_lib demo_remote (JStr ''55.75'') (JStr ''37.61'')) =
       Inr (echo_text_of demo_lib demo_fields)"
    by (simp add: get_weather_info_def bind_http lift_def response_json_def a a' r then_res_Inr)
  from a a' b c d have h: "current_weather demo_remote (JStr ''55.75'') (JStr ''37.61'') =
      Inr (answer (JObj full_weather)) \<and>
    payload (answer (JObj full_weather)) = Some (JObj full_weather) \<and>
    py_getitem2 (JObj full_weather) ''main'' ''pressure'' = Inr (JInt 1013) \<and> \<bar>1013 :: int\<bar> \<le> 10 ^ 9 \<and>
    fst (get_weather_info demo_lib demo_remote (JStr ''55.75'') (JStr ''37.61'')) =
      Inr (echo_text_of demo_lib demo_fields)"
    by (intro conjI)
  from report_pressure_mmHg [THEN conjunct2, THEN conjunct1, THEN mp, OF h, THEN conjunct1]
  obtain f where f: "read_weather demo_lib (JObj full_weather) = Inr f"
    and p: "pressure f = py_round (of_int 1013 / (1333 / 1000))"
    by blast
  from f r have "f = demo_fields"
    by simp
  with p have e: "pressure demo_fields = py_round (of_int 1013 / (1333 / 1000))"
    by simp
  have g: "pressure demo_fields = 760"
    by (simp add: demo_fields_def)
  have x: "py_truediv_float (JFloat (8905283322939179 / 8796093022208)) (1333 / 1000) =
           Inr (JFloat (1519 / 2))"
    by code_simp
  have z: "py_round (1519 / 2) = 760"
    by code_simp
  from a a' b c d r e g x z show ?thesis
    by (intro conjI)
qed








subsection \<open>The fixed providers\<close>

lemma demo_weather_moscow:
  "get_weather_info demo_lib demo_remote (JStr ''55.75'') (JStr ''37.61'') =
     (Inr (echo_text_of demo_lib demo_fields), [CurrentWeather (JStr ''55.75'') (JStr ''37.61'')])"
  by (simp add: get_weather_info_def demo_remote_def demo_current_weather_def bind_http lift_def
        answer_def response_json_def then_res_def demo_read_weather)

lemma demo_coords_moscow:
  "get_coords_from_address demo_remote (JStr ''Moscow'') =
     (Inr (JStr ''55.75'', JStr ''37.61''), [CleanAddress (JStr ''Moscow'')])"
  by code_simp

lemma demo_echo_moscow:
  "get_echo_text demo_lib demo_remote (JStr ''Moscow'') =
     (Inr (echo_text_of demo_lib demo_fields),
      [CleanAddress (JStr ''Moscow''), CurrentWeather (JStr ''55.75'') (JStr ''37.61'')])"
  by (simp add: get_echo_text_def demo_coords_moscow bind_io_alt py_truthy_def demo_weather_moscow)

lemma demo_reply:
  "reply demo_remote echo_text (message_with k v) =
     (Inr FUNC_RESPONSE, [SendMessage (ids_of_demo echo_text)])"
  by (simp add: reply_def send_message_def message_with_def py_getitem_def py_getitem2_def
        then_res_def lift_def http_def ret_def bind_io_def demo_remote_def demo_post_def
        ids_of_demo_def)

subsection \<open>The dispatcher\<close>

lemma handler_dispatch:
  assumes "TELEGRAM_BOT_TOKEN cfg \<noteq> None" and "OW_API_KEY cfg \<noteq> None"
    and "event ''body'' = Some b" and "json_loads lib b = Inr (JObj u)"
    and "map_of u ''message'' = Some message_in"
  shows "handler cfg lib rem event = dispatch cfg lib rem message_in"
  using assms by (auto simp add: handler_def bind_lift_Inr py_in_def py_getitem_def)

lemma reply_with_ids:
  assumes "map_of m ''message_id'' = Some message_id"
    and "py_getitem2 (JObj m) ''chat'' ''id'' = Inr chat_id"
  shows "reply rem echo_text (JObj m) =
           ((case post_message rem (text_payload chat_id message_id (JStr echo_text)) of
               Inl e \<Rightarrow> Inl e
             | Inr sent \<Rightarrow> Inr FUNC_RESPONSE),
            [SendMessage (text_payload chat_id message_id (JStr echo_text))])"
  using assms
  by (cases "post_message rem (text_payload chat_id message_id (JStr echo_text))")
     (simp_all add: reply_def send_message_def py_getitem_def lift_def http_def ret_def
        bind_io_def)

lemma http_no_voice_call: "\<not> is_voice_call c \<Longrightarrow> filter is_voice_call (snd (bind_io (http c outcome) (\<lambda>x. (Inr (), [])))) = []"
  by (cases outcome) (simp_all add: bind_http bind_http_failed)

lemma send_message_no_voice_call: "filter is_voice_call (snd (send_message rem t message)) = []"
proof (cases "py_getitem message ''message_id''")
  case (Inl e)
  then show ?thesis
    by (simp add: send_message_def bind_lift_Inl)
next
  case a: (Inr message_id)
  show ?thesis
  proof (cases "py_getitem2 message ''chat'' ''id''")
    case (Inl e)
    with a show ?thesis
      by (simp add: send_message_def bind_lift_Inl bind_lift_Inr)
  next
    case (Inr chat_id)
    with a show ?thesis
      by (cases t) (simp_all add: send_message_def bind_lift_Inr http_no_voice_call ret_def)
  qed
qed

lemma reply_no_voice_call: "filter is_voice_call (snd (reply rem echo_text message_in)) = []"
  using send_message_no_voice_call [of rem "JStr echo_text" message_in]
  by (cases "fst (send_message rem (JStr echo_text) message_in)")
     (simp_all add: reply_def bind_io_alt ret_def)

lemma dispatch_voice:
  assumes "map_of m ''location'' = None" and "map_of m ''text'' = None"
    and "map_of m ''voice'' = Some voice" and "YS_API_KEY cfg \<noteq> None"
    and "py_getitem voice ''duration'' = Inr d" and "py_num d = Some secs"
  shows "dispatch cfg lib rem (JObj m) =
           (if secs \<le> 30 then
              bind_io (process_voice_message lib rem (JObj m)) (\<lambda>echo_text. reply rem echo_text (JObj m))
            else reply rem too_long_text (JObj m))"
proof -
  have "py_getitem (JObj m) ''voice'' = Inr voice"
    using assms(3) by (simp add: py_getitem_def)
  with assms(5) have g: "py_getitem2 (JObj m) ''voice'' ''duration'' = Inr d"
    by (simp add: py_getitem2_def then_res_def)
  have "py_le_int d MAX_VOICE_DURATION = Inr (secs \<le> 30)"
    using assms(6) by (cases d) (simp_all add: py_le_int_def py_num_def MAX_VOICE_DURATION_def)
  with assms(1,2,3,4) show ?thesis
    by (auto simp add: dispatch_def py_in_def g bind_lift_Inr)
qed

lemma process_voice_first_call:
  assumes "py_getitem2 message ''voice'' ''file_id'' = Inr file_id"
  shows "\<exists>rest. snd (process_voice_message lib rem message) = GetFile file_id # rest"
proof (cases "get_file rem file_id")
  case (Inl e)
  with assms show ?thesis
    by (simp add: process_voice_message_def bind_lift_Inr bind_http_failed)
next
  case (Inr r_file)
  with assms show ?thesis
    by (simp add: process_voice_message_def bind_lift_Inr bind_http)
qed

lemma snd_bind_prefix: "\<exists>rest. snd (bind_io m g) = snd m @ rest"
  by (cases "fst m") (simp_all add: bind_io_alt)

lemma bind_io_after: "bind_io (fst m, cs @ snd m) g = (fst (bind_io m g), cs @ snd (bind_io m g))"
  by (cases "fst m") (simp_all add: bind_io_alt)

text \<open>The three requests of the transcription, when the first two are answered as the
  code expects; what follows depends on the answer of the speech service.\<close>

lemma process_voice_requests:
  assumes "py_getitem2 message ''voice'' ''file_id'' = Inr file_id"
    and "get_file rem file_id = Inr r_file" and "payload r_file = Some j"
    and "py_getitem2 j ''result'' ''file_path'' = Inr file_path"
    and "file_download rem file_path = Inr r_dl"
  shows "process_voice_message lib rem message =
           (case recognize rem (content r_dl) of
              Inl e \<Rightarrow> (Inl e, [GetFile file_id, FileDownload file_path, Recognize (content r_dl)])
            | Inr r_stt \<Rightarrow>
                (if ok r_stt then
                   (fst (bind_io (lift (then_res (response_json r_stt) (\<lambda>j. py_getitem j ''result'')))
                           (\<lambda>address. get_echo_text lib rem address)),
                    [GetFile file_id, FileDownload file_path, Recognize (content r_dl)] @
                    snd (bind_io (lift (then_res (response_json r_stt) (\<lambda>j. py_getitem j ''result'')))
                           (\<lambda>address. get_echo_text lib rem address)))
                 else (Inr not_recognized_text,
                       [GetFile file_id, FileDownload file_path, Recognize (content r_dl)])))"
proof -
  have p: "then_res (then_res (response_json r_file) (\<lambda>j. py_getitem j ''result''))
             (\<lambda>res. py_getitem res ''file_path'') = Inr file_path"
    using assms(3,4) by (simp add: response_json_def py_getitem2_def then_res_def)
  show ?thesis
    using assms(1,2,5)
    by (cases "recognize rem (content r_dl)")
       (simp_all add: process_voice_message_def bind_lift_Inr bind_http bind_http_failed p ret_def)
qed

text \<open>
  C7. Take an update with both guard credentials and the speech key set, whose message
  has no location and no text but a voice part with a numeric duration. If the duration
  exceeds 30, the handler does what the reply with the fixed "too long" text does: no
  file lookup, download or recognition request is made, and for a message carrying its
  ids exactly that one text is sent, with the fixed value returned once the platform has
  answered the send. If the duration is at most 30, the handler runs the transcription
  and replies with its result: with a file id present its first request is the file
  lookup, and when the lookup and the download are answered its requests start with the
  lookup, the download and the recognition of the downloaded audio, after which a
  refusal of the speech service leads to the reply "could not transcribe" and a
  recognised text is resolved and answered like a text message.
\<close>

theorem voice_duration_limit:
  assumes "TELEGRAM_BOT_TOKEN cfg \<noteq> None" and "OW_API_KEY cfg \<noteq> None" and "YS_API_KEY cfg \<noteq> None"
    and "event ''body'' = Some b" and "json_loads lib b = Inr (JObj u)"
    and "map_of u ''message'' = Some (JObj m)"
    and "map_of m ''location'' = None" and "map_of m ''text'' = None"
    and "map_of m ''voice'' = Some voice"
    and "py_getitem voice ''duration'' = Inr d" and "py_num d = Some secs"
  shows "(30 < secs \<longrightarrow>
            handler cfg lib rem event = reply rem too_long_text (JObj m) \<and>
            filter is_voice_call (snd (handler cfg lib rem event)) = [] \<and>
            (map_of m ''message_id'' = Some message_id \<and>
             py_getitem2 (JObj m) ''chat'' ''id'' = Inr chat_id \<longrightarrow>
               handler cfg lib rem event =
                 ((case post_message rem (text_payload chat_id message_id (JStr too_long_text)) of
                     Inl e \<Rightarrow> Inl e
                   | Inr sent \<Rightarrow> Inr FUNC_RESPONSE),
                  [SendMessage (text_payload chat_id message_id (JStr too_long_text))])))
         \<and> (secs \<le> 30 \<longrightarrow>
            handler cfg lib rem event =
              bind_io (process_voice_message lib rem (JObj m)) (\<lambda>echo_text. reply rem echo_text (JObj m)) \<and>
            (py_getitem voice ''file_id'' = Inr file_id \<longrightarrow>
               (\<exists>rest. snd (handler cfg lib rem event) = GetFile file_id # rest)) \<and>
            (py_getitem voice ''file_id'' = Inr file_id \<and>
             get_file rem file_id = Inr r_file \<and> payload r_file = Some j \<and>
             py_getitem2 j ''result'' ''file_path'' = Inr file_path \<and>
             file_download rem file_path = Inr r_dl \<longrightarrow>
               (\<exists>rest. snd (handler cfg lib rem event) =
                  GetFile file_id # FileDownload file_path # Recognize (content r_dl) # rest) \<and>
               (recognize rem (content r_dl) = Inr r_stt \<and> \<not> ok r_stt \<longrightarrow>
                  fst (handler cfg lib rem event) = fst (reply rem not_recognized_text (JObj m)) \<and>
                  snd (handler cfg lib rem event) =
                    GetFile file_id # FileDownload file_path # Recognize (content r_dl) #
                    snd (reply rem not_recognized_text (JObj m))) \<and>
               (recognize rem (content r_dl) = Inr r_stt \<and> ok r_stt \<and>
                payload r_stt = Some js \<and> py_getitem js ''result'' = Inr address \<longrightarrow>
                  fst (handler cfg lib rem event) =
                    fst (bind_io (get_echo_text lib rem address)
                           (\<lambda>echo_text. reply rem echo_text (JObj m))) \<and>
                  snd (handler cfg lib rem event) =
                    GetFile file_id # FileDownload file_path # Recognize (content r_dl) #
                    snd (bind_io (get_echo_text lib rem address)
                           (\<lambda>echo_text. reply rem echo_text (JObj m))))))"
proof -
  have h: "handler cfg lib rem event = dispatch cfg lib rem (JObj m)"
    using assms(1,2,4,5,6) by (rule handler_dispatch)
  have v: "dispatch cfg lib rem (JObj m) =
           (if secs \<le> 30 then
              bind_io (process_voice_message lib rem (JObj m)) (\<lambda>echo_text. reply rem echo_text (JObj m))
            else reply rem too_long_text (JObj m))"
    using assms(7,8,9,3,10,11) by (rule dispatch_voice)
  show ?thesis
  proof (intro conjI impI)
    assume "30 < secs"
    with h v show l: "handler cfg lib rem event = reply rem too_long_text (JObj m)"
      by simp
    show "filter is_voice_call (snd (handler cfg lib rem event)) = []"
      by (simp add: l reply_no_voice_call)
    assume "map_of m ''message_id'' = Some message_id \<and>
             py_getitem2 (JObj m) ''chat'' ''id'' = Inr chat_id"
    then show "handler cfg lib rem event =
                 ((case post_message rem (text_payload chat_id message_id (JStr too_long_text)) of
                     Inl e \<Rightarrow> Inl e
                   | Inr sent \<Rightarrow> Inr FUNC_RESPONSE),
                  [SendMessage (text_payload chat_id message_id (JStr too_long_text))])"
      by (simp add: l reply_with_ids)
  next
    assume "secs \<le> 30"
    with h v show s: "handler cfg lib rem event =
              bind_io (process_voice_message lib rem (JObj m)) (\<lambda>echo_text. reply rem echo_text (JObj m))"
      by simp
    {
      assume "py_getitem voice ''file_id'' = Inr file_id"
      with assms(9) have "py_getitem2 (JObj m) ''voice'' ''file_id'' = Inr file_id"
        by (simp add: py_getitem2_def py_getitem_def then_res_def)
      from process_voice_first_call [OF this, of lib rem]
      obtain rest where r: "snd (process_voice_message lib rem (JObj m)) = GetFile file_id # rest"
        by blast
      from snd_bind_prefix [of "process_voice_message lib rem (JObj m)" "\<lambda>echo_text. reply rem echo_text (JObj m)"]
      obtain more where "snd (bind_io (process_voice_message lib rem (JObj m))
                                (\<lambda>echo_text. reply rem echo_text (JObj m))) =
                         snd (process_voice_message lib rem (JObj m)) @ more"
        by blast
      with r s show "\<exists>rest. snd (handler cfg lib rem event) = GetFile file_id # rest"
        by simp
    }
    assume a: "py_getitem voice ''file_id'' = Inr file_id \<and>
             get_file rem file_id = Inr r_file \<and> payload r_file = Some j \<and>
             py_getitem2 j ''result'' ''file_path'' = Inr file_path \<and>
             file_download rem file_path = Inr r_dl"
    with assms(9) have f: "py_getitem2 (JObj m) ''voice'' ''file_id'' = Inr file_id"
      by (simp add: py_getitem2_def py_getitem_def then_res_def)
    note q = process_voice_requests [OF f, of rem r_file j file_path r_dl lib]
    have pv: "process_voice_message lib rem (JObj m) =
           (case recognize rem (content r_dl) of
              Inl e \<Rightarrow> (Inl e, [GetFile file_id, FileDownload file_path, Recognize (content r_dl)])
            | Inr r_stt \<Rightarrow>
                (if ok r_stt then
                   (fst (bind_io (lift (then_res (response_json r_stt) (\<lambda>j. py_getitem j ''result'')))
                           (\<lambda>address. get_echo_text lib rem address)),
                    [GetFile file_id, FileDownload file_path, Recognize (content r_dl)] @
                    snd (bind_io (lift (then_res (response_json r_stt) (\<lambda>j. py_getitem j ''result'')))
                           (\<lambda>address. get_echo_text lib rem address)))
                 else (Inr not_recognized_text,
                       [GetFile file_id, FileDownload file_path, Recognize (content r_dl)])))"
      using a by (intro q) simp_all
    show "\<exists>rest. snd (handler cfg lib rem event) =
                  GetFile file_id # FileDownload file_path # Recognize (content r_dl) # rest"
    proof -
      have "\<exists>rest. snd (process_voice_message lib rem (JObj m)) =
              GetFile file_id # FileDownload file_path # Recognize (content r_dl) # rest"
        unfolding pv by (cases "recognize rem (content r_dl)") simp_all
      then obtain rest where r: "snd (process_voice_message lib rem (JObj m)) =
              GetFile file_id # FileDownload file_path # Recognize (content r_dl) # rest"
        by blast
      from snd_bind_prefix [of "process_voice_message lib rem (JObj m)" "\<lambda>echo_text. reply rem echo_text (JObj m)"]
      obtain more where "snd (bind_io (process_voice_message lib rem (JObj m))
                                (\<lambda>echo_text. reply rem echo_text (JObj m))) =
                         snd (process_voice_message lib rem (JObj m)) @ more"
        by blast
      with r s show ?thesis
        by simp
    qed
    {
      assume n: "recognize rem (content r_dl) = Inr r_stt \<and> \<not> ok r_stt"
      then have "process_voice_message lib rem (JObj m) =
                 (Inr not_recognized_text, [GetFile file_id, FileDownload file_path, Recognize (content r_dl)])"
        by (simp add: pv)
      then have e: "handler cfg lib rem event =
                 (fst (reply rem not_recognized_text (JObj m)),
                  [GetFile file_id, FileDownload file_path, Recognize (content r_dl)] @
                  snd (reply rem not_recognized_text (JObj m)))"
        by (simp add: s bind_io_alt)
      show "fst (handler cfg lib rem event) = fst (reply rem not_recognized_text (JObj m))"
        by (simp add: e)
      show "snd (handler cfg lib rem event) =
                    GetFile file_id # FileDownload file_path # Recognize (content r_dl) #
                    snd (reply rem not_recognized_text (JObj m))"
        by (simp add: e)
    }
    assume k: "recognize rem (content r_dl) = Inr r_stt \<and> ok r_stt \<and>
                payload r_stt = Some js \<and> py_getitem js ''result'' = Inr address"
    then have "then_res (response_json r_stt) (\<lambda>j. py_getitem j ''result'') = Inr address"
      by (simp add: response_json_def then_res_def)
    with k have "process_voice_message lib rem (JObj m) =
                 (fst (get_echo_text lib rem address),
                  [GetFile file_id, FileDownload file_path, Recognize (content r_dl)] @
                  snd (get_echo_text lib rem address))"
      by (simp add: pv bind_lift_Inr)
    then have e: "handler cfg lib rem event =
                 (fst (bind_io (get_echo_text lib rem address) (\<lambda>echo_text. reply rem echo_text (JObj m))),
                  [GetFile file_id, FileDownload file_path, Recognize (content r_dl)] @
                  snd (bind_io (get_echo_text lib rem address) (\<lambda>echo_text. reply rem echo_text (JObj m))))"
      by (simp only: s bind_io_after)
    show "fst (handler cfg lib rem event) =
                    fst (bind_io (get_echo_text lib rem address)
                           (\<lambda>echo_text. reply rem echo_text (JObj m)))"
      by (simp add: e)
    show "snd (handler cfg lib rem event) =
                    GetFile file_id # FileDownload file_path # Recognize (content r_dl) #
                    snd (bind_io (get_echo_text lib rem address)
                           (\<lambda>echo_text. reply rem echo_text (JObj m)))"
      by (simp add: e)
  qed
qed

theorem voice_duration_limit_witness:
  "json_loads demo_lib long_voice_body = Inr (update_with ''voice'' (voice_of 31))
   \<and> py_num (JInt 31) = Some 31
   \<and> handler demo_config demo_lib demo_remote (event_of long_voice_body) =
       (Inr FUNC_RESPONSE, [SendMessage (ids_of_demo too_long_text)])
   \<and> filter is_voice_call (snd (handler demo_config demo_lib demo_remote (event_of long_voice_body))) = []
   \<and> json_loads demo_lib short_voice_body = Inr (update_with ''voice'' (voice_of 30))
   \<and> py_num (JInt 30) = Some 30
   \<and> hd (snd (handler demo_config demo_lib demo_remote (event_of short_voice_body))) = GetFile (JStr ''f1'')
   \<and> file_download demo_remote (JStr ''voice/file_1.oga'') =
       Inr \<lparr>ok = True, payload = None, content = ''OggS''\<rparr>
   \<and> fst (handler demo_config demo_lib demo_remote (event_of short_voice_body)) = Inr FUNC_RESPONSE
   \<and> snd (handler demo_config demo_lib demo_remote (event_of short_voice_body)) =
       [GetFile (JStr ''f1''), FileDownload (JStr ''voice/file_1.oga''), Recognize ''OggS'',
        CleanAddress (JStr ''Moscow''), CurrentWeather (JStr ''55.75'') (JStr ''37.61''),
        SendMessage (ids_of_demo (echo_text_of demo_lib demo_fields))]"
proof -
  let ?m = "\<lambda>n. [(''message_id'', JInt 7), (''chat'', JObj [(''id'', JInt 42)]), (''voice'', voice_of n)]"
  let ?j = "JObj [(''ok'', JBool True),
                  (''result'', JObj [(''file_id'', JStr ''f1''), (''file_path'', JStr ''voice/file_1.oga'')])]"
  let ?dl = "\<lparr>ok = True, payload = None, content = ''OggS''\<rparr>"
  let ?js = "JObj [(''result'', JStr ''Moscow'')]"
  have c: "TELEGRAM_BOT_TOKEN demo_config \<noteq> None" "OW_API_KEY demo_config \<noteq> None"
    "YS_API_KEY demo_config \<noteq> None"
    by (simp_all add: demo_config_def)
  have bl: "event_of long_voice_body ''body'' = Some long_voice_body"
    and bs: "event_of short_voice_body ''body'' = Some short_voice_body"
    by (simp_all add: event_of_def)
  have ll: "json_loads demo_lib long_voice_body = Inr (update_with ''voice'' (voice_of 31))"
    and ls: "json_loads demo_lib short_voice_body = Inr (update_with ''voice'' (voice_of 30))"
    by code_simp+
  have u: "\<And>n. update_with ''voice'' (voice_of n) = JObj [(''message'', JObj (?m n))]"
    by (simp add: update_with_def message_with_def)
  have mw: "\<And>n. JObj (?m n) = message_with ''voice'' (voice_of n)"
    by (simp add: message_with_def)
  have m: "\<And>n. map_of [(''message'', JObj (?m n))] ''message'' = Some (JObj (?m n))"
    "\<And>n. map_of (?m n) ''location'' = None" "\<And>n. map_of (?m n) ''text'' = None"
    "\<And>n. map_of (?m n) ''voice'' = Some (voice_of n)"
    "\<And>n. py_getitem (voice_of n) ''duration'' = Inr (JInt n)"
    by (simp_all add: voice_of_def py_getitem_def)
  have n: "py_num (JInt 31) = Some 31" "py_num (JInt 30) = Some 30"
    by (simp_all add: py_num_def)
  have i: "map_of (?m 31) ''message_id'' = Some (JInt 7) \<and>
           py_getitem2 (JObj (?m 31)) ''chat'' ''id'' = Inr (JInt 42)"
    by (simp add: py_getitem2_def py_getitem_def then_res_def)
  have f: "py_getitem (voice_of 30) ''file_id'' = Inr (JStr ''f1'')"
    by (simp add: voice_of_def py_getitem_def)
  have d: "file_download demo_remote (JStr ''voice/file_1.oga'') = Inr ?dl"
    by (simp add: demo_remote_def demo_file_download_def)
  have g: "py_getitem (voice_of 30) ''file_id'' = Inr (JStr ''f1'') \<and>
           get_file demo_remote (JStr ''f1'') = Inr (answer ?j) \<and> payload (answer ?j) = Some ?j \<and>
           py_getitem2 ?j ''result'' ''file_path'' = Inr (JStr ''voice/file_1.oga'') \<and>
           file_download demo_remote (JStr ''voice/file_1.oga'') = Inr ?dl"
    using f d
    by (simp add: demo_remote_def demo_get_file_def answer_def py_getitem2_def py_getitem_def
          then_res_def)
  have k: "recognize demo_remote (content ?dl) = Inr (answer ?js) \<and> ok (answer ?js) \<and>
           payload (answer ?js) = Some ?js \<and> py_getitem ?js ''result'' = Inr (JStr ''Moscow'')"
    by (simp add: demo_remote_def demo_recognize_def answer_def py_getitem_def)
  note long = voice_duration_limit [where rem = demo_remote and message_id = "JInt 7" and chat_id = "JInt 42"
      and cfg = demo_config and lib = demo_lib and event = "event_of long_voice_body",
      OF c(1) c(2) c(3) bl ll [unfolded u] m(1) [of 31] m(2) [of 31] m(3) [of 31] m(4) [of 31]
         m(5) [of 31] n(1), THEN conjunct1, THEN mp]
  note short = voice_duration_limit [where rem = demo_remote and file_id = "JStr ''f1''"
      and r_file = "answer ?j" and j = "?j" and file_path = "JStr ''voice/file_1.oga''"
      and r_dl = "?dl" and r_stt = "answer ?js" and js = "?js" and address = "JStr ''Moscow''"
      and cfg = demo_config and lib = demo_lib and event = "event_of short_voice_body",
      OF c(1) c(2) c(3) bs ls [unfolded u] m(1) [of 30] m(2) [of 30] m(3) [of 30] m(4) [of 30]
         m(5) [of 30] n(2), THEN conjunct2, THEN mp]
  have gt: "(30::rat) < 31" and le: "(30::rat) \<le> 30"
    by simp_all
  have p: "post_message demo_remote request = Inr (answer (JObj [(''ok'', JBool True)]))" for request
    by (simp add: demo_remote_def demo_post_def)
  have r1: "handler demo_config demo_lib demo_remote (event_of long_voice_body) =
       (Inr FUNC_RESPONSE, [SendMessage (ids_of_demo too_long_text)])"
    using long [OF gt, THEN conjunct2, THEN conjunct2, THEN mp, OF i]
    by (simp add: ids_of_demo_def text_payload_def p)
  have r2: "filter is_voice_call (snd (handler demo_config demo_lib demo_remote (event_of long_voice_body))) = []"
    by (rule long [OF gt, THEN conjunct2, THEN conjunct1])
  from short [OF le, THEN conjunct2, THEN conjunct1, THEN mp, OF f]
  have r3: "hd (snd (handler demo_config demo_lib demo_remote (event_of short_voice_body))) = GetFile (JStr ''f1'')"
    by auto
  note full = short [OF le, THEN conjunct2, THEN conjunct2, THEN mp, OF g, THEN conjunct2,
      THEN conjunct2, THEN mp, OF k]
  have e: "bind_io (get_echo_text demo_lib demo_remote (JStr ''Moscow''))
             (\<lambda>echo_text. reply demo_remote echo_text (message_with ''voice'' (voice_of 30))) =
           (Inr FUNC_RESPONSE,
            [CleanAddress (JStr ''Moscow''), CurrentWeather (JStr ''55.75'') (JStr ''37.61''),
             SendMessage (ids_of_demo (echo_text_of demo_lib demo_fields))])"
    by (simp add: demo_echo_moscow bind_io_alt demo_reply)
  have r4: "fst (handler demo_config demo_lib demo_remote (event_of short_voice_body)) = Inr FUNC_RESPONSE"
    using full [THEN conjunct1] by (simp only: mw e fst_conv)
  have r5: "snd (handler demo_config demo_lib demo_remote (event_of short_voice_body)) =
       [GetFile (JStr ''f1''), FileDownload (JStr ''voice/file_1.oga''), Recognize ''OggS'',
        CleanAddress (JStr ''Moscow''), CurrentWeather (JStr ''55.75'') (JStr ''37.61''),
        SendMessage (ids_of_demo (echo_text_of demo_lib demo_fields))]"
    using full [THEN conjunct2] by (simp only: mw e snd_conv response.simps)
  from ll n(1) r1 r2 ls n(2) r3 d r4 r5 show ?thesis
    by (intro conjI)
qed

subsection \<open>The answers decide the run\<close>

lemma same_answers_append:
  "same_answers rem rem' (as @ bs) = (same_answers rem rem' as \<and> same_answers rem rem' bs)"
  by (simp add: same_answers_def)

lemma determined_lift: "determined rem rem' (lift r) (lift r)"
  by (simp add: determined_def)

lemma determined_ret: "determined rem rem' (ret x) (ret x)"
  by (simp add: determined_def)

lemma determined_http:
  "outcome_of rem c = Some a \<Longrightarrow> outcome_of rem' c = Some b \<Longrightarrow>
     determined rem rem' (http c a) (http c b)"
  by (simp add: determined_def same_answers_def http_def)

lemma determined_bind:
  assumes "determined rem rem' m m'" and "\<And>x. determined rem rem' (f x) (f' x)"
  shows "determined rem rem' (bind_io m f) (bind_io m' f')"
  unfolding determined_def
proof
  assume s: "same_answers rem rem' (snd (bind_io m f))"
  show "bind_io m' f' = bind_io m f"
  proof (cases "fst m")
    case (Inl e)
    with s have "same_answers rem rem' (snd m)"
      by (simp add: bind_io_alt)
    with assms(1) have "m' = m"
      by (simp add: determined_def)
    with Inl show ?thesis
      by (simp add: bind_io_alt)
  next
    case (Inr x)
    with s have "same_answers rem rem' (snd m)" and t: "same_answers rem rem' (snd (f x))"
      by (simp_all add: bind_io_alt same_answers_append)
    with assms(1) have "m' = m"
      by (simp add: determined_def)
    moreover from t assms(2) [of x] have "f' x = f x"
      by (simp add: determined_def)
    ultimately show ?thesis
      using Inr by (simp add: bind_io_alt)
  qed
qed

lemma determined_if:
  "(c \<Longrightarrow> determined rem rem' a a') \<Longrightarrow> (\<not> c \<Longrightarrow> determined rem rem' b b') \<Longrightarrow>
     determined rem rem' (if c then a else b) (if c then a' else b')"
  by simp

lemma determined_get_weather_info:
  "determined rem rem' (get_weather_info lib rem lat lon) (get_weather_info lib rem' lat lon)"
  unfolding get_weather_info_def
  by (intro determined_bind determined_http determined_lift) simp_all

lemma determined_get_coords:
  "determined rem rem' (get_coords_from_address rem address) (get_coords_from_address rem' address)"
  unfolding get_coords_from_address_def
  by (intro determined_bind determined_http determined_lift) simp_all

lemma determined_get_echo_text:
  "determined rem rem' (get_echo_text lib rem address) (get_echo_text lib rem' address)"
  unfolding get_echo_text_def
proof (rule determined_bind [OF determined_get_coords])
  fix x :: "json \<times> json"
  show "determined rem rem'
          (case x of (lat, lon) \<Rightarrow>
             if py_truthy lat \<and> py_truthy lon then get_weather_info lib rem lat lon
             else ret (not_found_text lib address))
          (case x of (lat, lon) \<Rightarrow>
             if py_truthy lat \<and> py_truthy lon then get_weather_info lib rem' lat lon
             else ret (not_found_text lib address))"
    by (cases x) (simp add: determined_get_weather_info determined_ret)
qed

lemma determined_process_location:
  "determined rem rem' (process_location_message lib rem location)
     (process_location_message lib rem' location)"
  unfolding process_location_message_def
  by (intro determined_bind determined_lift determined_get_weather_info)

lemma determined_process_voice:
  "determined rem rem' (process_voice_message lib rem message)
     (process_voice_message lib rem' message)"
  unfolding process_voice_message_def
  by (intro determined_bind determined_lift determined_http determined_if
        determined_get_echo_text determined_ret)
     simp_all

lemma determined_send_message:
  "determined rem rem' (send_message rem text message) (send_message rem' text message)"
  unfolding send_message_def
proof (intro determined_bind determined_lift)
  fix message_id chat_id
  show "determined rem rem'
         (case text of
            JStr s \<Rightarrow>
              bind_io (http (SendMessage (text_payload chat_id message_id text))
                            (post_message rem (text_payload chat_id message_id text)))
                (\<lambda>answer. ret ())
          | JObj d \<Rightarrow>
              bind_io (http (SendVoice (voice_payload chat_id message_id text))
                            (post_voice rem (voice_payload chat_id message_id text)))
                (\<lambda>answer. ret ())
          | _ \<Rightarrow> ret ())
         (case text of
            JStr s \<Rightarrow>
              bind_io (http (SendMessage (text_payload chat_id message_id text))
                            (post_message rem' (text_payload chat_id message_id text)))
                (\<lambda>answer. ret ())
          | JObj d \<Rightarrow>
              bind_io (http (SendVoice (voice_payload chat_id message_id text))
                            (post_voice rem' (voice_payload chat_id message_id text)))
                (\<lambda>answer. ret ())
          | _ \<Rightarrow> ret ())"
    by (cases "text") (simp_all add: determined_bind determined_http determined_ret)
qed

lemma determined_reply:
  "determined rem rem' (reply rem echo_text message_in) (reply rem' echo_text message_in)"
  unfolding reply_def by (intro determined_bind determined_send_message determined_ret)

lemma determined_dispatch:
  "determined rem rem' (dispatch cfg lib rem message_in) (dispatch cfg lib rem' message_in)"
  unfolding dispatch_def
  by (intro determined_bind determined_if determined_lift determined_process_location
        determined_get_echo_text determined_process_voice determined_reply
        determined_send_message determined_ret)

lemma determined_handler:
  "determined rem rem' (handler cfg lib rem event) (handler cfg lib rem' event)"
  unfolding handler_def
  by (intro determined_bind determined_if determined_lift determined_dispatch determined_ret)

subsection \<open>One reply per invocation\<close>

lemma dispatch_start:
  assumes "map_of m ''location'' = None" and "map_of m ''text'' = Some (JStr ''/start'')"
  shows "dispatch cfg lib rem (JObj m) = reply rem start_text (JObj m)"
  using assms by (simp add: dispatch_def py_in_def py_getitem_def bind_lift_Inr reply_def)

lemma dispatch_location:
  assumes "map_of m ''location'' = Some location"
  shows "dispatch cfg lib rem (JObj m) =
           bind_io (process_location_message lib rem location) (\<lambda>echo_text. reply rem echo_text (JObj m))"
  using assms by (simp add: dispatch_def py_in_def py_getitem_def bind_lift_Inr)

lemma demo_start:
  "handler demo_config demo_lib demo_remote (event_of start_body) =
     (Inr FUNC_RESPONSE, [SendMessage (ids_of_demo start_text)])"
proof -
  let ?m = "[(''message_id'', JInt 7), (''chat'', JObj [(''id'', JInt 42)]), (''text'', JStr ''/start'')]"
  have l: "json_loads demo_lib start_body = Inr (JObj [(''message'', JObj ?m)])"
    by code_simp
  have c: "TELEGRAM_BOT_TOKEN demo_config \<noteq> None" "OW_API_KEY demo_config \<noteq> None"
    by (simp_all add: demo_config_def)
  have b: "event_of start_body ''body'' = Some start_body"
    by (simp add: event_of_def)
  have h: "handler demo_config demo_lib demo_remote (event_of start_body) =
           dispatch demo_config demo_lib demo_remote (JObj ?m)"
    by (rule handler_dispatch [where event = "event_of start_body", OF c b l]) simp
  have d: "dispatch demo_config demo_lib demo_remote (JObj ?m) = reply demo_remote start_text (JObj ?m)"
    by (rule dispatch_start) simp_all
  have e: "reply demo_remote start_text (JObj ?m) =
           (Inr FUNC_RESPONSE, [SendMessage (ids_of_demo start_text)])"
    using demo_reply [of start_text "''text''" "JStr ''/start''"] by (simp add: message_with_def)
  from h d e show ?thesis
    by simp
qed

text \<open>
  C1, as claimed: for every event whose body decodes and holds a message, the handler
  sends at most once and then returns the fixed success value. It need not return: for a
  location message, when the weather provider answers with an error document that has
  none of the report's fields, line 100 raises \<open>KeyError\<close>, which leaves the handler
  after the weather request, with no reply sent and no value returned.
\<close>

theorem handler_raises_on_provider_error:
  "json_loads demo_lib location_body =
     Inr (update_with ''location'' (JObj [(''latitude'', JInt 55), (''longitude'', JInt 37)]))
   \<and> handler demo_config demo_lib rejecting_remote (event_of location_body) =
       (Inl KeyError, [CurrentWeather (JInt 55) (JInt 37)])
   \<and> fst (handler demo_config demo_lib rejecting_remote (event_of location_body)) \<noteq> Inr FUNC_RESPONSE"
proof -
  have l: "json_loads demo_lib location_body =
     Inr (update_with ''location'' (JObj [(''latitude'', JInt 55), (''longitude'', JInt 37)]))"
    by code_simp
  have c: "TELEGRAM_BOT_TOKEN demo_config \<noteq> None" "OW_API_KEY demo_config \<noteq> None"
    by (simp_all add: demo_config_def)
  have b: "event_of location_body ''body'' = Some location_body"
    by (simp add: event_of_def)
  have h: "handler demo_config demo_lib rejecting_remote (event_of location_body) =
           dispatch demo_config demo_lib rejecting_remote
             (message_with ''location'' (JObj [(''latitude'', JInt 55), (''longitude'', JInt 37)]))"
    by (rule handler_dispatch [where event = "event_of location_body", OF c b l [unfolded update_with_def]])
       simp
  have d: "dispatch demo_config demo_lib rejecting_remote
             (message_with ''location'' (JObj [(''latitude'', JInt 55), (''longitude'', JInt 37)])) =
           (Inl KeyError, [CurrentWeather (JInt 55) (JInt 37)])"
  proof -
    have w: "read_weather demo_lib (JObj [(''cod'', JInt 401), (''message'', JStr ''Invalid API key'')]) =
             Inl KeyError"
      by code_simp
    have a: "current_weather rejecting_remote (JInt 55) (JInt 37) =
             Inr (refusal (JObj [(''cod'', JInt 401), (''message'', JStr ''Invalid API key'')]))"
      by (simp add: rejecting_remote_def rejected_weather_def)
    have g: "get_weather_info demo_lib rejecting_remote (JInt 55) (JInt 37) =
             (Inl KeyError, [CurrentWeather (JInt 55) (JInt 37)])"
      by (rule get_weather_info_Inl [OF a _ w]) (simp add: refusal_def)
    have p: "process_location_message demo_lib rejecting_remote
               (JObj [(''latitude'', JInt 55), (''longitude'', JInt 37)]) =
             (Inl KeyError, [CurrentWeather (JInt 55) (JInt 37)])"
      by (simp add: process_location_message_def py_getitem_def bind_lift_Inr g)
    have "map_of [(''message_id'', JInt 7), (''chat'', JObj [(''id'', JInt 42)]),
                  (''location'', JObj [(''latitude'', JInt 55), (''longitude'', JInt 37)])] ''location'' =
          Some (JObj [(''latitude'', JInt 55), (''longitude'', JInt 37)])"
      by simp
    from dispatch_location [OF this, of demo_config demo_lib rejecting_remote] show ?thesis
      by (simp add: message_with_def p bind_io_def)
  qed
  from l h d show ?thesis
    by simp
qed

text \<open>
  C1, amended. Every invocation, whatever the event and the answers of the providers,
  makes at most one outbound send, and whenever the handler returns, it returns the fixed
  success value; an exception raised on the way is not caught and takes the place of the
  return. The \<open>/start\<close> branch, for a message without a location that carries its
  \<open>message_id\<close> and \<open>chat.id\<close>, makes exactly one call, the send of the help text, and
  returns the fixed value as soon as the platform answers that send; if the send itself
  fails, its exception leaves the handler.
\<close>

theorem handler_sends_at_most_once:
  "length (sends (snd (handler cfg lib rem event))) \<le> 1
   \<and> (fst (handler cfg lib rem event) = Inr r \<longrightarrow> r = FUNC_RESPONSE)
   \<and> (TELEGRAM_BOT_TOKEN cfg \<noteq> None \<and> OW_API_KEY cfg \<noteq> None \<and>
       event ''body'' = Some b \<and> json_loads lib b = Inr (JObj u) \<and>
       map_of u ''message'' = Some (JObj m) \<and>
       map_of m ''location'' = None \<and> map_of m ''text'' = Some (JStr ''/start'') \<and>
       map_of m ''message_id'' = Some message_id \<and>
       py_getitem2 (JObj m) ''chat'' ''id'' = Inr chat_id \<longrightarrow>
         handler cfg lib rem event =
           ((case post_message rem
                   (JObj [(''chat_id'', chat_id), (''reply_to_message_id'', message_id),
                          (''text'', JStr start_text)]) of
               Inl e \<Rightarrow> Inl e
             | Inr sent \<Rightarrow> Inr FUNC_RESPONSE),
            [SendMessage (JObj [(''chat_id'', chat_id), (''reply_to_message_id'', message_id),
                                (''text'', JStr start_text)])]))"
proof (intro conjI impI)
  show "length (sends (snd (handler cfg lib rem event))) \<le> 1"
    using single_handler [of cfg lib rem event] by (simp add: single_def)
next
  assume "fst (handler cfg lib rem event) = Inr r"
  then show "r = FUNC_RESPONSE"
    using fixed_return_handler [of cfg lib rem event] by (simp add: fixed_return_def)
next
  assume a: "TELEGRAM_BOT_TOKEN cfg \<noteq> None \<and> OW_API_KEY cfg \<noteq> None \<and>
       event ''body'' = Some b \<and> json_loads lib b = Inr (JObj u) \<and>
       map_of u ''message'' = Some (JObj m) \<and>
       map_of m ''location'' = None \<and> map_of m ''text'' = Some (JStr ''/start'') \<and>
       map_of m ''message_id'' = Some message_id \<and>
       py_getitem2 (JObj m) ''chat'' ''id'' = Inr chat_id"
  then have "handler cfg lib rem event = dispatch cfg lib rem (JObj m)"
    using handler_dispatch [of cfg event b lib u "JObj m" rem] by blast
  also from a have "\<dots> = reply rem start_text (JObj m)"
    using dispatch_start [of m cfg lib rem] by blast
  also from a have "\<dots> =
           ((case post_message rem (text_payload chat_id message_id (JStr start_text)) of
               Inl e \<Rightarrow> Inl e
             | Inr sent \<Rightarrow> Inr FUNC_RESPONSE),
            [SendMessage (text_payload chat_id message_id (JStr start_text))])"
    using reply_with_ids [of m message_id chat_id rem start_text] by blast
  finally show "handler cfg lib rem event =
           ((case post_message rem
                   (JObj [(''chat_id'', chat_id), (''reply_to_message_id'', message_id),
                          (''text'', JStr start_text)]) of
               Inl e \<Rightarrow> Inl e
             | Inr sent \<Rightarrow> Inr FUNC_RESPONSE),
            [SendMessage (JObj [(''chat_id'', chat_id), (''reply_to_message_id'', message_id),
                                (''text'', JStr start_text)])])"
    by (simp add: text_payload_def)
qed

theorem handler_sends_at_most_once_witness:
  "json_loads demo_lib start_body = Inr (update_with ''text'' (JStr ''/start''))
   \<and> post_message demo_remote (ids_of_demo start_text) = Inr (answer (JObj [(''ok'', JBool True)]))
   \<and> handler demo_config demo_lib demo_remote (event_of start_body) =
       (Inr FUNC_RESPONSE, [SendMessage (ids_of_demo start_text)])
   \<and> length (sends (snd (handler demo_config demo_lib demo_remote (event_of start_body)))) = 1
   \<and> length (sends (snd (handler demo_config demo_lib rejecting_remote (event_of location_body)))) \<le> 1"
proof -
  let ?m = "[(''message_id'', JInt 7), (''chat'', JObj [(''id'', JInt 42)]), (''text'', JStr ''/start'')]"
  have l: "json_loads demo_lib start_body = Inr (update_with ''text'' (JStr ''/start''))"
    by code_simp
  have p: "post_message demo_remote (ids_of_demo start_text) = Inr (answer (JObj [(''ok'', JBool True)]))"
    by (simp add: demo_remote_def demo_post_def)
  have h: "TELEGRAM_BOT_TOKEN demo_config \<noteq> None \<and> OW_API_KEY demo_config \<noteq> None \<and>
       event_of start_body ''body'' = Some start_body \<and>
       json_loads demo_lib start_body = Inr (JObj [(''message'', JObj ?m)]) \<and>
       map_of [(''message'', JObj ?m)] ''message'' = Some (JObj ?m) \<and>
       map_of ?m ''location'' = None \<and> map_of ?m ''text'' = Some (JStr ''/start'') \<and>
       map_of ?m ''message_id'' = Some (JInt 7) \<and>
       py_getitem2 (JObj ?m) ''chat'' ''id'' = Inr (JInt 42)"
    using l
    by (simp add: demo_config_def event_of_def update_with_def message_with_def py_getitem2_def
          py_getitem_def then_res_def)
  have r: "handler demo_config demo_lib demo_remote (event_of start_body) =
       (Inr FUNC_RESPONSE, [SendMessage (ids_of_demo start_text)])"
    using handler_sends_at_most_once [where rem = demo_remote and cfg = demo_config and lib = demo_lib
        and event = "event_of start_body", THEN conjunct2, THEN conjunct2, THEN mp, OF h]
      p [unfolded ids_of_demo_def text_payload_def]
    by (simp add: ids_of_demo_def text_payload_def)
  have s: "length (sends (snd (handler demo_config demo_lib demo_remote (event_of start_body)))) = 1"
    by (simp add: r sends_def)
  have t: "length (sends (snd (handler demo_config demo_lib rejecting_remote (event_of location_body)))) \<le> 1"
    by (rule handler_sends_at_most_once [THEN conjunct1])
  from l p r s t show ?thesis
    by (intro conjI)
qed

subsection \<open>Repeated invocations\<close>

text \<open>
  C9. What a process keeps between invocations is the module's globals and the dict of
  line 5, and the handler writes to neither. So an invocation leaves the module state as
  it found it, and a second invocation with the same event and the same providers ends
  the same way, makes the same requests and sends the same reply texts as the first.
  Of the providers the handler uses nothing but their answers to the requests it makes:
  with providers that answer these requests alike, whatever else they would answer, the
  invocation is the same, request for request and reply for reply.
\<close>

theorem handler_repeatable:
  "(invoke s lib rem event = (first, s1) \<and> invoke s1 lib rem event = (second, s2) \<longrightarrow>
      s1 = s \<and> s2 = s \<and> second = first \<and>
      reply_texts (snd second) = reply_texts (snd first) \<and>
      snd first = snd (handler (globals s) lib rem event))
   \<and> (same_answers rem rem' (snd (handler cfg lib rem event)) \<longrightarrow>
        handler cfg lib rem' event = handler cfg lib rem event \<and>
        reply_texts (snd (handler cfg lib rem' event)) = reply_texts (snd (handler cfg lib rem event)))"
proof (intro conjI impI)
  have i: "invoke t lib rem event =
             (((case fst (handler (globals t) lib rem event) of
                  Inl e \<Rightarrow> Inl e
                | Inr r \<Rightarrow> Inr (func_response t)),
               snd (handler (globals t) lib rem event)), t)" for t
  proof -
    obtain outcome made where h: "handler (globals t) lib rem event = (outcome, made)"
      by fastforce
    have "filter is_write made = []"
      using readonly_handler [of "globals t" lib rem event] by (simp add: readonly_def h)
    then have "state_after made t = t"
      by (rule state_after_readonly)
    then show ?thesis
      by (cases outcome) (simp_all add: invoke_def h)
  qed
  assume a: "invoke s lib rem event = (first, s1) \<and> invoke s1 lib rem event = (second, s2)"
  then have a1: "invoke s lib rem event = (first, s1)"
    and a2: "invoke s1 lib rem event = (second, s2)"
    by simp_all
  from a1 [symmetric] i [of s]
  have e1: "(first, s1) =
             (((case fst (handler (globals s) lib rem event) of
                  Inl e \<Rightarrow> Inl e
                | Inr r \<Rightarrow> Inr (func_response s)),
               snd (handler (globals s) lib rem event)), s)"
    by (rule trans)
  then show s1: "s1 = s"
    by (rule Pair_inject)
  from a2 have "invoke s lib rem event = (second, s2)"
    unfolding s1 .
  with a1 have e2: "(second, s2) = (first, s1)"
    by simp
  then show "s2 = s"
    unfolding s1 by (rule Pair_inject)
  from e2 show e: "second = first"
    by (rule Pair_inject)
  show "reply_texts (snd second) = reply_texts (snd first)"
    unfolding e ..
  from e1 have "first =
             ((case fst (handler (globals s) lib rem event) of
                  Inl e \<Rightarrow> Inl e
                | Inr r \<Rightarrow> Inr (func_response s)),
               snd (handler (globals s) lib rem event))"
    by (rule Pair_inject)
  then show "snd first = snd (handler (globals s) lib rem event)"
    by simp
next
  assume "same_answers rem rem' (snd (handler cfg lib rem event))"
  with determined_handler [of rem rem' cfg lib event]
  show e: "handler cfg lib rem' event = handler cfg lib rem event"
    by (simp add: determined_def)
  show "reply_texts (snd (handler cfg lib rem' event)) = reply_texts (snd (handler cfg lib rem event))"
    by (simp add: e)
qed

theorem handler_repeatable_witness:
  "invoke demo_state demo_lib demo_remote (event_of start_body) =
     ((Inr FUNC_RESPONSE, [SendMessage (ids_of_demo start_text)]), demo_state)
   \<and> reply_texts (snd (fst (invoke demo_state demo_lib demo_remote (event_of start_body)))) =
       [JStr start_text]
   \<and> same_answers demo_remote rejecting_remote [SendMessage (ids_of_demo start_text)]
   \<and> current_weather rejecting_remote (JInt 55) (JInt 37) \<noteq> current_weather demo_remote (JInt 55) (JInt 37)
   \<and> handler demo_config demo_lib rejecting_remote (event_of start_body) =
       (Inr FUNC_RESPONSE, [SendMessage (ids_of_demo start_text)])"
proof -
  let ?first = "fst (invoke demo_state demo_lib demo_remote (event_of start_body))"
  let ?s1 = "snd (invoke demo_state demo_lib demo_remote (event_of start_body))"
  let ?second = "fst (invoke ?s1 demo_lib demo_remote (event_of start_body))"
  let ?s2 = "snd (invoke ?s1 demo_lib demo_remote (event_of start_body))"
  have p: "invoke demo_state demo_lib demo_remote (event_of start_body) = (?first, ?s1) \<and>
           invoke ?s1 demo_lib demo_remote (event_of start_body) = (?second, ?s2)"
    by simp
  note twice = handler_repeatable [where s = demo_state and lib = demo_lib and rem = demo_remote
      and event = "event_of start_body", THEN conjunct1, THEN mp, OF p]
  have s1: "?s1 = demo_state"
    by (rule twice [THEN conjunct1])
  have c: "snd ?first = [SendMessage (ids_of_demo start_text)]"
    using twice [THEN conjunct2, THEN conjunct2, THEN conjunct2, THEN conjunct2]
    by (simp add: demo_state_def demo_start)
  have f: "fst ?first = Inr FUNC_RESPONSE"
    by (simp add: invoke_def demo_state_def demo_start state_after_def)
  have i: "invoke demo_state demo_lib demo_remote (event_of start_body) =
     ((Inr FUNC_RESPONSE, [SendMessage (ids_of_demo start_text)]), demo_state)"
    using s1 c f by (simp add: prod_eq_iff)
  have t: "reply_texts (snd ?first) = [JStr start_text]"
    by (simp add: c ids_of_demo_def text_payload_def)
  have a: "same_answers demo_remote rejecting_remote [SendMessage (ids_of_demo start_text)]"
    by (simp add: same_answers_def demo_remote_def rejecting_remote_def)
  have n: "current_weather rejecting_remote (JInt 55) (JInt 37) \<noteq>
           current_weather demo_remote (JInt 55) (JInt 37)"
    by (simp add: demo_remote_def rejecting_remote_def rejected_weather_def
          demo_current_weather_def refusal_def answer_def)
  have d: "same_answers demo_remote rejecting_remote
             (snd (handler demo_config demo_lib demo_remote (event_of start_body)))"
    using a by (simp add: demo_start)
  have h: "handler demo_config demo_lib rejecting_remote (event_of start_body) =
       (Inr FUNC_RESPONSE, [SendMessage (ids_of_demo start_text)])"
    using handler_repeatable [where rem = demo_remote and rem' = rejecting_remote
        and cfg = demo_config and lib = demo_lib and event = "event_of start_body",
        THEN conjunct2, THEN mp, OF d, THEN conjunct1]
    by (simp add: demo_start)
  from i t a n h show ?thesis
    by (intro conjI)
qed

end
